theory Spec2Isabelle
  imports Main
begin

section \<open>The JSON API of twobuntu/api/v1_2/views.py\<close>

text \<open>
  The module wraps seven resource functions in three decorators: \<open>minmax\<close> (date
  filter), \<open>paginate\<close> (slice) and \<open>endpoint\<close> (encoding, error translation and the
  choice of the response representation). Exceptions are values of the sum type
  \<open>exn + 'a\<close> (\<open>Inl\<close> raises), the query parameters are a map from names to texts, and
  a QuerySet is the list of the rows it selects, in the order the data store gives them,
  with the limits of a slice kept beside it until the QuerySet is evaluated.
\<close>

subsection \<open>Exceptions\<close>

datatype exn =
    APIException string
  | ValueError
  | TypeError
  | NameError string
  | AttributeError
  | AssertionError
  | FieldError
  | OverflowError
  | IntegrityError

fun is_APIException :: "exn \<Rightarrow> bool" where
  "is_APIException (APIException m) = True"
| "is_APIException e = False"

subsection \<open>JSON values and \<open>json.dumps\<close>\<close>

datatype json =
    JNull
  | JBool bool
  | JInt int
  | JStr string
  | JList "json list"
  | JDict "(string \<times> json) list"

text \<open>
  A text is a list of code points below 256. \<open>dumps\<close> runs with its defaults
  (\<open>ensure_ascii\<close>, separators \<open>", "\<close> and \<open>": "\<close>): a quote and a backslash are
  escaped with a backslash, the five control characters below have short escapes, and
  every other code point outside \<open>' '..'~'\<close> is written \<open>\u00xx\<close>.
\<close>

definition hex_digit :: "nat \<Rightarrow> char" where
  "hex_digit n = (''0123456789abcdef'') ! (n mod 16)"

definition escape_char :: "char \<Rightarrow> string" where
  "escape_char c =
     (if c = CHR 0x22 then [CHR 0x5C, CHR 0x22]
      else if c = CHR 0x5C then [CHR 0x5C, CHR 0x5C]
      else if c = CHR 0x0A then [CHR 0x5C, CHR ''n'']
      else if c = CHR 0x0D then [CHR 0x5C, CHR ''r'']
      else if c = CHR 0x09 then [CHR 0x5C, CHR ''t'']
      else if c = CHR 0x08 then [CHR 0x5C, CHR ''b'']
      else if c = CHR 0x0C then [CHR 0x5C, CHR ''f'']
      else if of_char c < (0x20 :: nat) \<or> (0x7E :: nat) < of_char c
        then [CHR 0x5C, CHR ''u'', CHR ''0'', CHR ''0'',
              hex_digit (of_char c div 16), hex_digit (of_char c)]
      else [c])"

definition dumps_str :: "string \<Rightarrow> string" where
  "dumps_str s = [CHR 0x22] @ concat (map escape_char s) @ [CHR 0x22]"

fun dumps_nat :: "nat \<Rightarrow> string" where
  "dumps_nat n =
     (if n < 10 then [(''0123456789'') ! n]
      else dumps_nat (n div 10) @ [(''0123456789'') ! (n mod 10)])"

definition dumps_int :: "int \<Rightarrow> string" where
  "dumps_int i = (if i < 0 then CHR ''-'' # dumps_nat (nat (- i)) else dumps_nat (nat i))"

fun dumps :: "json \<Rightarrow> string"
  and dumps_items :: "json list \<Rightarrow> string"
  and dumps_pairs :: "(string \<times> json) list \<Rightarrow> string" where
  "dumps JNull = ''null''"
| "dumps (JBool b) = (if b then ''true'' else ''false'')"
| "dumps (JInt i) = dumps_int i"
| "dumps (JStr s) = dumps_str s"
| "dumps (JList xs) = ''['' @ dumps_items xs @ '']''"
| "dumps (JDict ps) = ''{'' @ dumps_pairs ps @ ''}''"
| "dumps_items [] = []"
| "dumps_items [x] = dumps x"
| "dumps_items (x # y # xs) = dumps x @ '', '' @ dumps_items (y # xs)"
| "dumps_pairs [] = []"
| "dumps_pairs [(k, v)] = dumps_str k @ '': '' @ dumps v"
| "dumps_pairs ((k, v) # q # ps) = dumps_str k @ '': '' @ dumps v @ '', '' @ dumps_pairs (q # ps)"

subsection \<open>The domain objects\<close>

text \<open>
  Modelled from the spec: the models \<open>Article\<close>, \<open>Profile\<close> and \<open>Category\<close> and
  Django's \<open>User\<close> are imported by the module and not defined in it. The records hold
  the attributes the module reads (section 3 of the specification lists them). A
  \<open>datetime\<close> is a count of whole seconds, the number that
  \<open>timegm(d.utctimetuple())\<close> reads off it. \<open>num_articles\<close> is the attribute that
  \<open>annotate\<close> adds; an instance that was not annotated has none.
\<close>

type_synonym datetime = int

datatype status = DRAFT | PUBLISHED

record auth_user =
  user_id :: int
  email :: string
  last_login :: datetime

record category =
  category_id :: int
  category_name :: string
  num_articles :: "int option"

record profile =
  profile_pk :: int
  user :: auth_user
  location :: string
  website :: string
  bio :: string

record article =
  article_id :: int
  title :: string
  author :: auth_user
  category :: category
  body :: string
  cc_license :: bool
  date :: datetime
  status :: status

datatype queryset =
    ArticleQS "article list"
  | CategoryQS "category list"
  | ProfileQS "profile list"

text \<open>
  A \<open>queryset\<close> is the rows that a query selects, in order. The values a resource
  function can hand to the pipeline: a QuerySet on which no slice was taken, a QuerySet
  with the limits \<open>low_mark\<close> and \<open>high_mark\<close> of a slice (\<open>Sliced\<close>; its rows
  are fetched only when it is evaluated), a model instance, or \<open>Object\<close>, a bare
  \<open>object()\<close> that supports none of the operations used here.
\<close>

datatype pyobj =
    QuerySet queryset
  | Sliced queryset nat nat
  | Article article
  | Category category
  | Profile profile
  | Object

fun list_rows :: "queryset \<Rightarrow> pyobj list" where
  "list_rows (ArticleQS xs) = map Article xs"
| "list_rows (CategoryQS xs) = map Category xs"
| "list_rows (ProfileQS xs) = map Profile xs"

subsection \<open>What the module takes from outside\<close>

text \<open>
  The builtins, library calls and model methods the module uses, and the namespace in
  which a name that is not local to a function is looked up (the module's globals, then
  the builtins). \<open>py_int\<close> is \<open>int()\<close> on a text, \<open>None\<close> when it raises
  \<open>ValueError\<close>; \<open>fromtimestamp\<close> depends on the host's time zone and on its range
  of dates; \<open>reindent\<close> is \<open>dumps(loads(json), indent=4)\<close>; \<open>backend_max\<close>
  is the largest integer that the data store accepts as the \<open>LIMIT\<close> or the
  \<open>OFFSET\<close> of a query (\<open>2^63 - 1\<close> where its integers have 64 bits).
\<close>

record env =
  py_int :: "string \<Rightarrow> int option"
  fromtimestamp :: "int \<Rightarrow> exn + datetime"
  md5_hexdigest :: "string \<Rightarrow> string"
  unicode_user :: "auth_user \<Rightarrow> string"
  unicode_profile :: "profile \<Rightarrow> string"
  render_article :: "article \<Rightarrow> string"
  age :: "profile \<Rightarrow> int"
  reindent :: "string \<Rightarrow> string"
  reverse_api_index :: string
  globals :: "string \<rightharpoonup> pyobj"
  backend_max :: int

text \<open>The names bound at the top level of views.py, in the order of the file.\<close>

definition views_names :: "string list" where
  "views_names =
     [''timegm'', ''datetime'', ''md5'', ''dumps'', ''JSONEncoder'', ''loads'', ''reverse'',
      ''Count'', ''QuerySet'', ''HttpResponse'', ''render'', ''Profile'', ''Article'',
      ''Category'', ''APIException'', ''ObjectEncoder'', ''endpoint'', ''paginate'', ''minmax'',
      ''articles'', ''article_by_id'', ''authors'', ''author_by_id'', ''articles_by_author'',
      ''categories'', ''articles_by_category'']"

definition views_globals :: "string \<rightharpoonup> pyobj" where
  "views_globals = map_of (map (\<lambda>n. (n, Object)) views_names)"

subsection \<open>Evaluating a QuerySet\<close>

text \<open>
  A slice of a QuerySet is a query with \<open>LIMIT high_mark - low_mark OFFSET low_mark\<close>
  that runs when the QuerySet is evaluated, here by \<open>list(o)\<close> in the Encoder. When
  the two marks are equal the result is empty and no query runs. Otherwise the data store
  refuses a limit or an offset beyond its integers, and Django raises the store's error
  (an \<open>IntegrityError\<close> on SQLite); within them it returns the rows from index
  \<open>low_mark\<close> up to, not including, \<open>high_mark\<close>.
\<close>

fun rows_slice :: "queryset \<Rightarrow> nat \<Rightarrow> nat \<Rightarrow> queryset" where
  "rows_slice (ArticleQS xs) lo hi = ArticleQS (take (hi - lo) (drop lo xs))"
| "rows_slice (CategoryQS xs) lo hi = CategoryQS (take (hi - lo) (drop lo xs))"
| "rows_slice (ProfileQS xs) lo hi = ProfileQS (take (hi - lo) (drop lo xs))"

definition fetch :: "env \<Rightarrow> queryset \<Rightarrow> nat \<Rightarrow> nat \<Rightarrow> exn + queryset" where
  "fetch E qs lo hi =
     (if lo = hi then Inr (rows_slice qs 0 0)
      else if backend_max E < int lo \<or> backend_max E < int (hi - lo) then Inl IntegrityError
      else Inr (rows_slice qs lo hi))"

text \<open>\<open>list(o)\<close> for a QuerySet; nothing else is iterated in the module.\<close>

fun evaluate :: "env \<Rightarrow> pyobj \<Rightarrow> exn + pyobj list" where
  "evaluate E (QuerySet qs) = Inr (list_rows qs)"
| "evaluate E (Sliced qs lo hi) =
     (case fetch E qs lo hi of Inl e \<Rightarrow> Inl e | Inr rows \<Rightarrow> Inr (list_rows rows))"
| "evaluate E v = Inl TypeError"

subsection \<open>ObjectEncoder\<close>

fun mapM :: "('a \<Rightarrow> exn + 'b) \<Rightarrow> 'a list \<Rightarrow> exn + 'b list" where
  "mapM f [] = Inr []"
| "mapM f (x # xs) =
     (case f x of
        Inl e \<Rightarrow> Inl e
      | Inr y \<Rightarrow> (case mapM f xs of Inl e \<Rightarrow> Inl e | Inr ys \<Rightarrow> Inr (y # ys)))"

definition encode_article :: "env \<Rightarrow> article \<Rightarrow> exn + json" where
  "encode_article E a =
     Inr (JDict
       [(''id'', JInt (article_id a)),
        (''title'', JStr (title a)),
        (''author'', JDict
           [(''id'', JInt (user_id (author a))),
            (''name'', JStr (unicode_user E (author a))),
            (''email_hash'', JStr (md5_hexdigest E (email (author a))))]),
        (''category'', JDict
           [(''id'', JInt (category_id (category a))),
            (''name'', JStr (category_name (category a)))]),
        (''body'', JStr (render_article E a)),
        (''cc_license'', JBool (cc_license a)),
        (''date'', JInt (date a))])"

definition encode_category :: "env \<Rightarrow> category \<Rightarrow> exn + json" where
  "encode_category E c =
     (case num_articles c of
        None \<Rightarrow> Inl AttributeError
      | Some n \<Rightarrow>
          Inr (JDict
            [(''id'', JInt (category_id c)),
             (''name'', JStr (category_name c)),
             (''articles'', JInt n)]))"

text \<open>
  Line 61 reads \<open>article.author.email\<close>. The function's locals are \<open>self\<close> and
  \<open>profile\<close>, so \<open>article\<close> is looked up in the namespace outside the function: a
  name that is not bound raises \<open>NameError\<close>, a bound article gives its author's email,
  any other bound object has no attribute \<open>author\<close>. The entries \<open>id\<close> and \<open>name\<close>
  are evaluated before and raise nothing.
\<close>

definition encode_profile :: "env \<Rightarrow> profile \<Rightarrow> exn + json" where
  "encode_profile E p =
     (case globals E ''article'' of
        None \<Rightarrow> Inl (NameError ''article'')
      | Some (Article a) \<Rightarrow>
          Inr (JDict
            [(''id'', JInt (user_id (user p))),
             (''name'', JStr (unicode_profile E p)),
             (''email_hash'', JStr (md5_hexdigest E (email (author a)))),
             (''age'', JInt (age E p)),
             (''location'', JStr (location p)),
             (''website'', JStr (website p)),
             (''bio'', JStr (bio p)),
             (''last_seen'', JInt (last_login (user p)))])
      | Some _ \<Rightarrow> Inl AttributeError)"

text \<open>
  \<open>default\<close> turns a QuerySet, sliced or not, into the list of its rows, which
  evaluates it, and \<open>dumps\<close> then calls \<open>default\<close> on each row, which is an
  instance of the QuerySet's model. \<open>JSONEncoder.default\<close> raises \<open>TypeError\<close>.
\<close>

fun encode_rows :: "env \<Rightarrow> queryset \<Rightarrow> exn + json list" where
  "encode_rows E (ArticleQS xs) = mapM (encode_article E) xs"
| "encode_rows E (CategoryQS xs) = mapM (encode_category E) xs"
| "encode_rows E (ProfileQS xs) = mapM (encode_profile E) xs"

fun encoder_default :: "env \<Rightarrow> pyobj \<Rightarrow> exn + json" where
  "encoder_default E (QuerySet qs) =
     (case encode_rows E qs of Inl e \<Rightarrow> Inl e | Inr js \<Rightarrow> Inr (JList js))"
| "encoder_default E (Sliced qs lo hi) =
     (case fetch E qs lo hi of
        Inl e \<Rightarrow> Inl e
      | Inr rows \<Rightarrow>
          (case encode_rows E rows of Inl e \<Rightarrow> Inl e | Inr js \<Rightarrow> Inr (JList js)))"
| "encoder_default E (Article a) = encode_article E a"
| "encoder_default E (Category c) = encode_category E c"
| "encoder_default E (Profile p) = encode_profile E p"
| "encoder_default E Object = Inl TypeError"

definition dumps_cls :: "env \<Rightarrow> pyobj \<Rightarrow> exn + string" where
  "dumps_cls E v = (case encoder_default E v of Inl e \<Rightarrow> Inl e | Inr j \<Rightarrow> Inr (dumps j))"

subsection \<open>Requests, responses and QuerySet operations\<close>

record request =
  GET :: "string \<rightharpoonup> string"

text \<open>
  \<open>HttpResponse body content_type\<close>, and \<open>render(request, template, context)\<close> with
  the context as a JSON value.
\<close>

datatype response =
    HttpResponse string string
  | TemplateResponse string json

text \<open>
  \<open>qs[start:stop]\<close>: Django refuses a negative bound with an assertion and otherwise
  returns a copy of the QuerySet with its limits set, without running a query.
  \<open>set_limits\<close> takes the bounds relative to the marks the QuerySet already has (0 and
  none when no slice was taken): the high mark first, then the low mark, which never
  exceeds it. A model instance and a bare object have no \<open>__getitem__\<close>.
\<close>

fun getslice :: "pyobj \<Rightarrow> int \<Rightarrow> int \<Rightarrow> exn + pyobj" where
  "getslice (QuerySet qs) start stop =
     (if start < 0 \<or> stop < 0 then Inl AssertionError
      else Inr (Sliced qs (min (nat stop) (nat start)) (nat stop)))"
| "getslice (Sliced qs lo hi) start stop =
     (if start < 0 \<or> stop < 0 then Inl AssertionError
      else Inr (Sliced qs (min (min hi (lo + nat stop)) (lo + nat start)) (min hi (lo + nat stop))))"
| "getslice v start stop = Inl TypeError"

text \<open>
  \<open>.filter(**filters)\<close> with the two keys the module may set. Modelled from the spec:
  of the three models only \<open>Article\<close> has a field \<open>date\<close>, so a date filter on
  another model cannot be resolved; an empty \<open>filters\<close> leaves any QuerySet as it is.
  Before it applies a filter, Django asserts that no slice was taken.
\<close>

record filters =
  date__gte :: "datetime option"
  date__lte :: "datetime option"

definition date_ok :: "filters \<Rightarrow> article \<Rightarrow> bool" where
  "date_ok f a \<longleftrightarrow>
     (case date__gte f of None \<Rightarrow> True | Some lo \<Rightarrow> lo \<le> date a) \<and>
     (case date__lte f of None \<Rightarrow> True | Some hi \<Rightarrow> date a \<le> hi)"

fun filter_kw :: "pyobj \<Rightarrow> filters \<Rightarrow> exn + pyobj" where
  "filter_kw (QuerySet (ArticleQS xs)) f = Inr (QuerySet (ArticleQS (filter (date_ok f) xs)))"
| "filter_kw (QuerySet qs) f =
     (if date__gte f = None \<and> date__lte f = None then Inr (QuerySet qs) else Inl FieldError)"
| "filter_kw (Sliced qs lo hi) f =
     (if date__gte f = None \<and> date__lte f = None then Inr (Sliced qs lo hi)
      else Inl AssertionError)"
| "filter_kw v f = Inl AttributeError"

subsection \<open>The decorators\<close>

definition respond :: "env \<Rightarrow> request \<Rightarrow> string \<Rightarrow> response" where
  "respond E request json =
     (if GET request ''debug'' \<noteq> None then
        TemplateResponse ''api/debug.html''
          (JDict
            [(''title'', JStr ''2buntu API Debugger''),
             (''parent'', JDict
                [(''title'', JStr ''API''),
                 (''url'', JStr (reverse_api_index E))]),
             (''json'', JStr (reindent E json))])
      else
        (case GET request ''callback'' of
           Some callback \<Rightarrow> HttpResponse (callback @ ''('' @ json @ '')'') ''application/javascript''
         | None \<Rightarrow> HttpResponse json ''application/json''))"

text \<open>
  A keyword argument of the wrapped function (the \<open>id\<close> of four views) is passed on
  unchanged by every wrapper, so a wrapped function is taken with it already applied.
\<close>

definition endpoint :: "env \<Rightarrow> (request \<Rightarrow> exn + pyobj) \<Rightarrow> request \<Rightarrow> exn + response" where
  "endpoint E fn request =
     (case (case fn request of Inl e \<Rightarrow> Inl e | Inr v \<Rightarrow> dumps_cls E v) of
        Inl (APIException m) \<Rightarrow> Inr (respond E request (dumps (JDict [(''error'', JStr m)])))
      | Inl e \<Rightarrow> Inl e
      | Inr json \<Rightarrow> Inr (respond E request json))"

definition page_param :: "env \<Rightarrow> request \<Rightarrow> int option" where
  "page_param E request =
     (case GET request ''page'' of
        None \<Rightarrow> Some 1
      | Some s \<Rightarrow> (case py_int E s of None \<Rightarrow> None | Some n \<Rightarrow> Some (max n 1)))"

definition size_param :: "env \<Rightarrow> request \<Rightarrow> int option" where
  "size_param E request =
     (case GET request ''size'' of
        None \<Rightarrow> Some 20
      | Some s \<Rightarrow> (case py_int E s of None \<Rightarrow> None | Some n \<Rightarrow> Some (min (max n 0) 20)))"

definition paginate :: "env \<Rightarrow> (request \<Rightarrow> exn + pyobj) \<Rightarrow> request \<Rightarrow> exn + pyobj" where
  "paginate E fn request =
     (case page_param E request of
        None \<Rightarrow> Inl (APIException ''Invalid page and/or size parameter specified.'')
      | Some page \<Rightarrow>
          (case size_param E request of
             None \<Rightarrow> Inl (APIException ''Invalid page and/or size parameter specified.'')
           | Some sz \<Rightarrow>
               (case fn request of
                  Inl e \<Rightarrow> Inl e
                | Inr v \<Rightarrow> getslice v ((page - 1) * sz) (page * sz))))"

text \<open>
  One bound of \<open>minmax\<close>: absent, or \<open>datetime.fromtimestamp(int(text))\<close>, where
  \<open>int\<close> raises \<open>ValueError\<close> and the conversion raises what the host's library
  raises.
\<close>

definition bound_param :: "env \<Rightarrow> request \<Rightarrow> string \<Rightarrow> exn + datetime option" where
  "bound_param E request key =
     (case GET request key of
        None \<Rightarrow> Inr None
      | Some s \<Rightarrow>
          (case py_int E s of
             None \<Rightarrow> Inl ValueError
           | Some n \<Rightarrow> (case fromtimestamp E n of Inl e \<Rightarrow> Inl e | Inr d \<Rightarrow> Inr (Some d))))"

definition minmax_filters :: "env \<Rightarrow> request \<Rightarrow> exn + filters" where
  "minmax_filters E request =
     (case bound_param E request ''min'' of
        Inl e \<Rightarrow> Inl e
      | Inr lo \<Rightarrow>
          (case bound_param E request ''max'' of
             Inl e \<Rightarrow> Inl e
           | Inr hi \<Rightarrow> Inr \<lparr>date__gte = lo, date__lte = hi\<rparr>))"

definition minmax :: "env \<Rightarrow> (request \<Rightarrow> exn + pyobj) \<Rightarrow> request \<Rightarrow> exn + pyobj" where
  "minmax E fn request =
     (case minmax_filters E request of
        Inl ValueError \<Rightarrow> Inl (APIException ''Invalid min and/or max parameter specified.'')
      | Inl e \<Rightarrow> Inl e
      | Inr f \<Rightarrow> (case fn request of Inl e \<Rightarrow> Inl e | Inr v \<Rightarrow> filter_kw v f))"

subsection \<open>The resource functions and the views\<close>

text \<open>
  Modelled from the spec: the data store is the three tables, each in the order in which
  its manager returns the rows; \<open>filter\<close> keeps that order. \<open>Count('article')\<close>
  counts, for a category, the rows of the article table that refer to it.
\<close>

record db =
  article_objects :: "article list"
  profile_objects :: "profile list"
  category_objects :: "category list"

definition articles_fn :: "db \<Rightarrow> request \<Rightarrow> exn + pyobj" where
  "articles_fn D request =
     Inr (QuerySet (ArticleQS (filter (\<lambda>a. status a = PUBLISHED) (article_objects D))))"

definition article_by_id_fn :: "db \<Rightarrow> int \<Rightarrow> request \<Rightarrow> exn + pyobj" where
  "article_by_id_fn D i request =
     Inr (QuerySet (ArticleQS
       (filter (\<lambda>a. article_id a = i \<and> status a = PUBLISHED) (article_objects D))))"

definition authors_fn :: "db \<Rightarrow> request \<Rightarrow> exn + pyobj" where
  "authors_fn D request = Inr (QuerySet (ProfileQS (profile_objects D)))"

definition author_by_id_fn :: "db \<Rightarrow> int \<Rightarrow> request \<Rightarrow> exn + pyobj" where
  "author_by_id_fn D i request =
     Inr (QuerySet (ProfileQS (filter (\<lambda>p. profile_pk p = i) (profile_objects D))))"

definition articles_by_author_fn :: "db \<Rightarrow> int \<Rightarrow> request \<Rightarrow> exn + pyobj" where
  "articles_by_author_fn D i request =
     Inr (QuerySet (ArticleQS
       (filter (\<lambda>a. user_id (author a) = i \<and> status a = PUBLISHED) (article_objects D))))"

definition count_article :: "db \<Rightarrow> category \<Rightarrow> int" where
  "count_article D c =
     int (length (filter (\<lambda>a. category_id (category a) = category_id c) (article_objects D)))"

definition categories_fn :: "db \<Rightarrow> request \<Rightarrow> exn + pyobj" where
  "categories_fn D request =
     Inr (QuerySet (CategoryQS
       (map (\<lambda>c. c\<lparr>num_articles := Some (count_article D c)\<rparr>) (category_objects D))))"

definition articles_by_category_fn :: "db \<Rightarrow> int \<Rightarrow> request \<Rightarrow> exn + pyobj" where
  "articles_by_category_fn D i request =
     Inr (QuerySet (ArticleQS
       (filter (\<lambda>a. category_id (category a) = i \<and> status a = PUBLISHED) (article_objects D))))"

definition articles :: "env \<Rightarrow> db \<Rightarrow> request \<Rightarrow> exn + response" where
  "articles E D = endpoint E (paginate E (minmax E (articles_fn D)))"

definition article_by_id :: "env \<Rightarrow> db \<Rightarrow> int \<Rightarrow> request \<Rightarrow> exn + response" where
  "article_by_id E D i = endpoint E (paginate E (minmax E (article_by_id_fn D i)))"

definition authors :: "env \<Rightarrow> db \<Rightarrow> request \<Rightarrow> exn + response" where
  "authors E D = endpoint E (paginate E (minmax E (authors_fn D)))"

definition author_by_id :: "env \<Rightarrow> db \<Rightarrow> int \<Rightarrow> request \<Rightarrow> exn + response" where
  "author_by_id E D i = endpoint E (paginate E (minmax E (author_by_id_fn D i)))"

definition articles_by_author :: "env \<Rightarrow> db \<Rightarrow> int \<Rightarrow> request \<Rightarrow> exn + response" where
  "articles_by_author E D i = endpoint E (paginate E (minmax E (articles_by_author_fn D i)))"

definition categories :: "env \<Rightarrow> db \<Rightarrow> request \<Rightarrow> exn + response" where
  "categories E D = endpoint E (paginate E (minmax E (categories_fn D)))"

definition articles_by_category :: "env \<Rightarrow> db \<Rightarrow> int \<Rightarrow> request \<Rightarrow> exn + response" where
  "articles_by_category E D i = endpoint E (paginate E (minmax E (articles_by_category_fn D i)))"

subsection \<open>Vocabulary of the properties\<close>

text \<open>
  The text \<open>{"error": "<m>"}\<close> for a message without characters to escape, written
  out character by character; a parameter that is present and that \<open>int\<close> refuses; the
  value requested for a parameter, which is its default when the parameter is absent; and
  the rows of a list from index \<open>a\<close> up to, not including, index \<open>b\<close>.
\<close>

definition quoted :: "string \<Rightarrow> string" where
  "quoted s = [CHR 0x22] @ s @ [CHR 0x22]"

definition error_text :: "string \<Rightarrow> string" where
  "error_text m = ''{'' @ quoted ''error'' @ '': '' @ quoted m @ ''}''"

definition unparseable :: "env \<Rightarrow> request \<Rightarrow> string \<Rightarrow> bool" where
  "unparseable E request key \<longleftrightarrow>
     (case GET request key of None \<Rightarrow> False | Some s \<Rightarrow> py_int E s = None)"

definition requested :: "env \<Rightarrow> request \<Rightarrow> string \<Rightarrow> int \<Rightarrow> int option" where
  "requested E request key dflt =
     (case GET request key of None \<Rightarrow> Some dflt | Some s \<Rightarrow> py_int E s)"

definition rows_between :: "'a list \<Rightarrow> nat \<Rightarrow> nat \<Rightarrow> 'a list" where
  "rows_between xs a b = map (\<lambda>i. xs ! i) [a ..< min b (length xs)]"

subsection \<open>A concrete host and data store\<close>

text \<open>
  An environment on which the definitions can be evaluated: \<open>int\<close> reads an optional
  sign and decimal digits between optional blanks; the host's zone is UTC and its dates
  run from year 1 to year 9999, an integer too large for a float overflows; the digest
  and the model methods are stand-ins; the namespace is that of the module; the data
  store has 64-bit integers.
\<close>

definition is_space :: "char \<Rightarrow> bool" where
  "is_space c \<longleftrightarrow> c \<in> set [CHR 0x20, CHR 0x09, CHR 0x0A, CHR 0x0B, CHR 0x0C, CHR 0x0D]"

definition strip :: "string \<Rightarrow> string" where
  "strip s = rev (dropWhile is_space (rev (dropWhile is_space s)))"

definition digit_value :: "char \<Rightarrow> nat option" where
  "digit_value c =
     (let n = (of_char c :: nat) in if 48 \<le> n \<and> n \<le> 57 then Some (n - 48) else None)"

fun digits_value :: "nat \<Rightarrow> string \<Rightarrow> nat option" where
  "digits_value acc [] = Some acc"
| "digits_value acc (c # cs) =
     (case digit_value c of None \<Rightarrow> None | Some d \<Rightarrow> digits_value (10 * acc + d) cs)"

definition decimal_int :: "string \<Rightarrow> int option" where
  "decimal_int s =
     (case strip s of
        [] \<Rightarrow> None
      | c # cs \<Rightarrow>
          if c = CHR ''-'' then
            (if cs = [] then None else map_option (\<lambda>n. - int n) (digits_value 0 cs))
          else if c = CHR ''+'' then
            (if cs = [] then None else map_option int (digits_value 0 cs))
          else map_option int (digits_value 0 (c # cs)))"

definition utc_fromtimestamp :: "int \<Rightarrow> exn + datetime" where
  "utc_fromtimestamp n =
     (if 2 ^ 1024 \<le> \<bar>n\<bar> then Inl OverflowError
      else if n < - 62135596800 \<or> 253402300799 < n then Inl ValueError
      else Inr n)"

definition demo_env :: env where
  "demo_env =
     \<lparr>py_int = decimal_int,
      fromtimestamp = utc_fromtimestamp,
      md5_hexdigest = (\<lambda>s. ''md5:'' @ s),
      unicode_user = (\<lambda>u. ''user'' @ dumps_int (user_id u)),
      unicode_profile = (\<lambda>p. ''user'' @ dumps_int (user_id (user p))),
      render_article = body,
      age = (\<lambda>p. 30),
      reindent = (\<lambda>j. j),
      reverse_api_index = ''/api/'',
      globals = views_globals,
      backend_max = 2 ^ 63 - 1\<rparr>"

definition alice :: auth_user where
  "alice = \<lparr>user_id = 1, email = ''alice@example.org'', last_login = 1400000000\<rparr>"

definition bob :: auth_user where
  "bob = \<lparr>user_id = 2, email = ''bob@example.org'', last_login = 1400000500\<rparr>"

definition news :: category where
  "news = \<lparr>category_id = 1, category_name = ''news'', num_articles = None\<rparr>"

definition alice_profile :: profile where
  "alice_profile =
     \<lparr>profile_pk = 1, user = alice, location = ''Paris'', website = ''http://a.example.org'',
      bio = ''writes''\<rparr>"

definition post :: "int \<Rightarrow> datetime \<Rightarrow> status \<Rightarrow> article" where
  "post i d st =
     \<lparr>article_id = i, title = ''t'', author = bob, category = news, body = ''b'',
      cc_license = True, date = d, status = st\<rparr>"

definition demo_db :: db where
  "demo_db =
     \<lparr>article_objects =
        [post 1 99 PUBLISHED, post 2 100 PUBLISHED, post 3 150 DRAFT,
         post 4 200 PUBLISHED, post 5 201 PUBLISHED],
      profile_objects = [alice_profile],
      category_objects = [news]\<rparr>"

definition drafts_db :: db where
  "drafts_db =
     \<lparr>article_objects = [post 1 100 DRAFT],
      profile_objects = [],
      category_objects = [news]\<rparr>"

definition query :: "(string \<times> string) list \<Rightarrow> request" where
  "query ps = \<lparr>GET = map_of ps\<rparr>"

definition far_page :: request where
  "far_page = query [(''page'', ''1000000000000000000''), (''size'', ''20'')]"

section \<open>Properties\<close>

subsection \<open>Auxiliary facts\<close>

text \<open>
  The Encoder's dispatch on a QuerySet is \<open>default\<close> applied to each of its rows, in
  order, stopping at the first row that raises.
\<close>

lemma mapM_map: "mapM f (map g xs) = mapM (\<lambda>x. f (g x)) xs"
  by (induction xs) (simp_all split: sum.splits)

lemma encode_rows_by_default: "encode_rows E qs = mapM (encoder_default E) (list_rows qs)"
  by (cases qs) (simp_all add: mapM_map)

lemma encoder_default_Sliced:
  "encoder_default E (Sliced qs lo hi) =
     (case evaluate E (Sliced qs lo hi) of
        Inl e \<Rightarrow> Inl e
      | Inr rows \<Rightarrow>
          (case mapM (encoder_default E) rows of Inl e \<Rightarrow> Inl e | Inr js \<Rightarrow> Inr (JList js)))"
  by (simp add: encode_rows_by_default split: sum.splits)

lemma list_rows_rows_slice:
  "list_rows (rows_slice qs lo hi) = take (hi - lo) (drop lo (list_rows qs))"
  by (cases qs) (simp_all add: take_map drop_map)

lemma take_drop_rows_between: "take (b - a) (drop a xs) = rows_between xs a b"
proof (rule nth_equalityI)
  show "length (take (b - a) (drop a xs)) = length (rows_between xs a b)"
    unfolding rows_between_def by (simp add: min_def) arith
next
  fix i assume "i < length (take (b - a) (drop a xs))"
  then have i: "i < b - a" "a + i < length xs" by auto
  then have "i < length [a ..< min b (length xs)]" by auto
  then show "take (b - a) (drop a xs) ! i = rows_between xs a b ! i"
    using i by (simp add: rows_between_def)
qed

lemma views_globals_article: "views_globals ''article'' = None"
  by (simp add: views_globals_def views_names_def)

lemma encode_profile_unbound:
  "globals E ''article'' = None \<Longrightarrow> encode_profile E p = Inl (NameError ''article'')"
  by (simp add: encode_profile_def)

lemma encode_profile_residual:
  "globals E ''article'' = Some (Article a) \<Longrightarrow>
     \<exists>fields. encode_profile E p = Inr (JDict fields) \<and>
       map_of fields ''email_hash'' = Some (JStr (md5_hexdigest E (email (author a))))"
  by (simp add: encode_profile_def)

lemma rows_between_beyond: "length xs \<le> a \<Longrightarrow> rows_between xs a b = []"
  by (simp add: rows_between_def)

lemma paginate_eval:
  "page_param E request = Some p \<Longrightarrow> size_param E request = Some s \<Longrightarrow> fn request = Inr v \<Longrightarrow>
     paginate E fn request = getslice v ((p - 1) * s) (p * s)"
  by (simp add: paginate_def)

lemma getslice_QuerySet:
  "0 \<le> a \<Longrightarrow> a \<le> b \<Longrightarrow> getslice (QuerySet qs) a b = Inr (Sliced qs (nat a) (nat b))"
  by (auto simp: min_def)

lemma evaluate_empty: "evaluate E (Sliced qs n n) = Inr []"
  by (simp add: fetch_def list_rows_rows_slice)

lemma evaluate_in_range:
  "lo \<noteq> hi \<Longrightarrow> int lo \<le> backend_max E \<Longrightarrow> int (hi - lo) \<le> backend_max E \<Longrightarrow>
     evaluate E (Sliced qs lo hi) = Inr (rows_between (list_rows qs) lo hi)"
  by (simp add: fetch_def list_rows_rows_slice take_drop_rows_between)

lemma evaluate_beyond:
  "lo \<noteq> hi \<Longrightarrow> backend_max E < int lo \<Longrightarrow> evaluate E (Sliced qs lo hi) = Inl IntegrityError"
  by (simp add: fetch_def)

lemma page_param_requested:
  "page_param E request =
     (case requested E request ''page'' 1 of None \<Rightarrow> None | Some n \<Rightarrow> Some (max n 1))"
  by (simp add: page_param_def requested_def split: option.splits)

lemma size_param_requested:
  "size_param E request =
     (case requested E request ''size'' 20 of None \<Rightarrow> None | Some n \<Rightarrow> Some (min (max n 0) 20))"
  by (simp add: size_param_def requested_def split: option.splits)

lemma demo_published:
  "minmax demo_env (articles_fn demo_db) (query [(''page'', ''2''), (''size'', ''2'')]) =
     Inr (QuerySet (ArticleQS
       [post 1 99 PUBLISHED, post 2 100 PUBLISHED, post 4 200 PUBLISHED, post 5 201 PUBLISHED]))"
  by (simp add: minmax_def minmax_filters_def bound_param_def query_def articles_fn_def
      demo_db_def date_ok_def post_def)

lemma decimal_int_2: "decimal_int ''2'' = Some 2"
  by (simp add: decimal_int_def strip_def is_space_def digit_value_def)



lemma decimal_int_samples:
  "decimal_int ''1000'' = Some 1000" "decimal_int ''20'' = Some 20"
  "decimal_int ''-5'' = Some (- 5)" "decimal_int ''0'' = Some 0"
  "decimal_int ''-3'' = Some (- 3)" "decimal_int ''1'' = Some 1"
  by (simp_all add: decimal_int_def strip_def is_space_def digit_value_def)

lemma minmax_unbounded:
  "GET r ''min'' = None \<Longrightarrow> GET r ''max'' = None \<Longrightarrow> fn r = Inr (QuerySet (ArticleQS xs)) \<Longrightarrow>
     minmax E fn r = Inr (QuerySet (ArticleQS xs))"
  by (simp add: minmax_def minmax_filters_def bound_param_def date_ok_def)

lemma minmax_reads_min_max:
  assumes "GET r1 ''min'' = GET r2 ''min''" "GET r1 ''max'' = GET r2 ''max''" "fn r1 = fn r2"
  shows "minmax E fn r1 = minmax E fn r2"
proof -
  have lo: "bound_param E r1 ''min'' = bound_param E r2 ''min''"
    and hi: "bound_param E r1 ''max'' = bound_param E r2 ''max''"
    using assms by (simp_all add: bound_param_def)
  have "minmax_filters E r1 = minmax_filters E r2"
    unfolding minmax_filters_def lo hi ..
  then show ?thesis
    unfolding minmax_def assms(3) by simp
qed

lemma endpoint_APIException:
  "fn request = Inl (APIException m) \<Longrightarrow>
     endpoint E fn request = Inr (respond E request (dumps (JDict [(''error'', JStr m)])))"
  by (simp add: endpoint_def)

lemma endpoint_raises:
  "fn request = Inl e \<Longrightarrow> \<not> is_APIException e \<Longrightarrow> endpoint E fn request = Inl e"
  by (cases e) (simp_all add: endpoint_def)

lemma endpoint_returns:
  "fn request = Inr v \<Longrightarrow> dumps_cls E v = Inr json \<Longrightarrow>
     endpoint E fn request = Inr (respond E request json)"
  by (simp add: endpoint_def)

lemma mapM_Inl: "mapM f xs = Inl e \<Longrightarrow> \<exists>x \<in> set xs. f x = Inl e"
  by (induction xs) (auto split: sum.splits)

lemma encode_category_not_API: "encode_category E c = Inl e \<Longrightarrow> \<not> is_APIException e"
  by (auto simp: encode_category_def split: option.splits)

lemma encode_profile_not_API: "encode_profile E p = Inl e \<Longrightarrow> \<not> is_APIException e"
  by (auto simp: encode_profile_def split: option.splits pyobj.splits)

lemma encode_rows_not_API: "encode_rows E qs = Inl e \<Longrightarrow> \<not> is_APIException e"
proof (cases qs)
  case (ArticleQS xs)
  assume "encode_rows E qs = Inl e"
  with ArticleQS obtain x where "encode_article E x = Inl e" by (auto dest: mapM_Inl)
  then show ?thesis by (simp add: encode_article_def)
next
  case (CategoryQS xs)
  assume "encode_rows E qs = Inl e"
  with CategoryQS obtain x where "encode_category E x = Inl e" by (auto dest: mapM_Inl)
  then show ?thesis by (rule encode_category_not_API)
next
  case (ProfileQS xs)
  assume "encode_rows E qs = Inl e"
  with ProfileQS obtain x where "encode_profile E x = Inl e" by (auto dest: mapM_Inl)
  then show ?thesis by (rule encode_profile_not_API)
qed

lemma fetch_not_API: "fetch E qs lo hi = Inl e \<Longrightarrow> \<not> is_APIException e"
  by (auto simp: fetch_def split: if_splits)

lemma encoder_default_not_API: "encoder_default E v = Inl e \<Longrightarrow> \<not> is_APIException e"
proof (cases v)
  case (QuerySet qs)
  assume "encoder_default E v = Inl e"
  with QuerySet have "encode_rows E qs = Inl e" by (simp split: sum.splits)
  then show ?thesis by (rule encode_rows_not_API)
next
  case (Sliced qs lo hi)
  assume "encoder_default E v = Inl e"
  with Sliced have "fetch E qs lo hi = Inl e \<or> (\<exists>rows. encode_rows E rows = Inl e)"
    by (auto split: sum.splits)
  then show ?thesis by (auto dest: fetch_not_API encode_rows_not_API)
qed (auto simp: encode_article_def dest: encode_category_not_API encode_profile_not_API)

lemma endpoint_encoder_raises:
  assumes "fn request = Inr v" "encoder_default E v = Inl e"
  shows "endpoint E fn request = Inl e"
proof -
  have "\<not> is_APIException e" using assms(2) by (rule encoder_default_not_API)
  then show ?thesis using assms by (cases e) (simp_all add: endpoint_def dumps_cls_def)
qed

lemma respond_debug:
  "GET request ''debug'' \<noteq> None \<Longrightarrow>
     respond E request json =
       TemplateResponse ''api/debug.html''
         (JDict
           [(''title'', JStr ''2buntu API Debugger''),
            (''parent'', JDict [(''title'', JStr ''API''), (''url'', JStr (reverse_api_index E))]),
            (''json'', JStr (reindent E json))])"
  by (simp add: respond_def)

lemma respond_callback:
  "GET request ''debug'' = None \<Longrightarrow> GET request ''callback'' = Some cb \<Longrightarrow>
     respond E request json = HttpResponse (cb @ ''('' @ json @ '')'') ''application/javascript''"
  by (simp add: respond_def)

lemma respond_plain:
  "GET request ''debug'' = None \<Longrightarrow> GET request ''callback'' = None \<Longrightarrow>
     respond E request json = HttpResponse json ''application/json''"
  by (simp add: respond_def)

lemma demo_empty_page:
  assumes "GET r ''size'' = Some ''0''" "GET r ''page'' = None" "GET r ''min'' = None"
    "GET r ''max'' = None"
  shows "paginate demo_env (minmax demo_env (articles_fn demo_db)) r =
    Inr (Sliced (ArticleQS
      [post 1 99 PUBLISHED, post 2 100 PUBLISHED, post 4 200 PUBLISHED, post 5 201 PUBLISHED]) 0 0)"
proof -
  have "minmax demo_env (articles_fn demo_db) r =
      Inr (QuerySet (ArticleQS
        [post 1 99 PUBLISHED, post 2 100 PUBLISHED, post 4 200 PUBLISHED, post 5 201 PUBLISHED]))"
    using assms by (simp add: minmax_unbounded articles_fn_def demo_db_def post_def)
  then show ?thesis
    using assms
    by (simp add: paginate_def page_param_def size_param_def demo_env_def decimal_int_samples)
qed

lemma dumps_cls_empty: "dumps_cls E (Sliced qs n n) = Inr ''[]''"
  by (cases qs) (simp_all add: dumps_cls_def fetch_def)

lemma dumps_page_error:
  "dumps (JDict [(''error'', JStr ''Invalid page and/or size parameter specified.'')]) =
     error_text ''Invalid page and/or size parameter specified.''"
  by (simp add: dumps_str_def escape_char_def error_text_def quoted_def)

lemma dumps_minmax_error:
  "dumps (JDict [(''error'', JStr ''Invalid min and/or max parameter specified.'')]) =
     error_text ''Invalid min and/or max parameter specified.''"
  by (simp add: dumps_str_def escape_char_def error_text_def quoted_def)

lemma paginate_invalid:
  "unparseable E request ''page'' \<or> unparseable E request ''size'' \<Longrightarrow>
     paginate E fn request = Inl (APIException ''Invalid page and/or size parameter specified.'')"
  by (auto simp: paginate_def page_param_def size_param_def unparseable_def
      split: option.splits)

lemma decimal_int_abc: "decimal_int ''abc'' = None"
  by (simp add: decimal_int_def strip_def is_space_def digit_value_def)

lemma minmax_invalid:
  assumes "unparseable E request ''min'' \<or>
           (unparseable E request ''max'' \<and>
            (\<forall>e. bound_param E request ''min'' = Inl e \<longrightarrow> e = ValueError))"
  shows "minmax E fn request = Inl (APIException ''Invalid min and/or max parameter specified.'')"
proof -
  have "minmax_filters E request = Inl ValueError"
  proof (cases "bound_param E request ''min''")
    case (Inl e)
    with assms have "e = ValueError"
      by (auto simp: bound_param_def unparseable_def split: option.splits)
    with Inl show ?thesis by (simp add: minmax_filters_def)
  next
    case (Inr lo)
    with assms have "unparseable E request ''max''"
      by (auto simp: bound_param_def unparseable_def split: option.splits)
    then have "bound_param E request ''max'' = Inl ValueError"
      by (auto simp: bound_param_def unparseable_def split: option.splits)
    with Inr show ?thesis by (simp add: minmax_filters_def)
  qed
  then show ?thesis by (simp add: minmax_def)
qed

lemma paginate_passes_error:
  assumes "\<not> unparseable E request ''page''" "\<not> unparseable E request ''size''"
    and "fn request = Inl e"
  shows "paginate E fn request = Inl e"
  using assms
  by (auto simp: paginate_def page_param_def size_param_def unparseable_def split: option.splits)

lemma minmax_min_conversion_raises:
  assumes "GET request ''min'' = Some s" "py_int E s = Some n" "fromtimestamp E n = Inl e"
    and "e \<noteq> ValueError"
  shows "minmax E fn request = Inl e"
proof -
  have "minmax_filters E request = Inl e"
    using assms by (simp add: minmax_filters_def bound_param_def)
  then show ?thesis using assms(4) by (cases e) (simp_all add: minmax_def)
qed

lemma utc_fromtimestamp_overflow: "utc_fromtimestamp (2 ^ 1024) = Inl OverflowError"
  by (simp add: utc_fromtimestamp_def)

lemma digits_value_zeros:
  "digits_value acc (replicate n (CHR ''0'')) = Some (acc * 10 ^ n)"
  by (induction n arbitrary: acc) (simp_all add: digit_value_def)

lemma decimal_int_one_zeros:
  "decimal_int (CHR ''1'' # replicate n (CHR ''0'')) = Some (10 ^ n)"
proof -
  have a: "dropWhile is_space (CHR ''1'' # replicate n (CHR ''0'')) =
      CHR ''1'' # replicate n (CHR ''0'')"
    by (simp add: is_space_def)
  have b: "dropWhile is_space (replicate n (CHR ''0'') @ [CHR ''1'']) =
      replicate n (CHR ''0'') @ [CHR ''1'']"
    by (cases n) (simp_all add: is_space_def)
  have "strip (CHR ''1'' # replicate n (CHR ''0'')) = CHR ''1'' # replicate n (CHR ''0'')"
    unfolding strip_def a by (simp add: b)
  then show ?thesis
    by (simp add: decimal_int_def digit_value_def digits_value_zeros)
qed

lemma min_overflow_escapes:
  "articles demo_env demo_db
     (query [(''min'', CHR ''1'' # replicate 309 (CHR ''0'')), (''max'', ''abc'')]) =
     Inl OverflowError"
proof -
  let ?r = "query [(''min'', CHR ''1'' # replicate 309 (CHR ''0'')), (''max'', ''abc'')]"
  have "(2::int) ^ 1024 \<le> 10 ^ 309" by simp
  then have big: "utc_fromtimestamp (10 ^ 309) = Inl OverflowError"
    unfolding utc_fromtimestamp_def by simp
  have g: "GET ?r ''min'' = Some (CHR ''1'' # replicate 309 (CHR ''0''))"
    by (simp add: query_def)
  have pi: "py_int demo_env (CHR ''1'' # replicate 309 (CHR ''0'')) = Some (10 ^ 309)"
    unfolding demo_env_def by (simp only: env.simps decimal_int_one_zeros)
  have ft: "fromtimestamp demo_env (10 ^ 309) = Inl OverflowError"
    unfolding demo_env_def by (simp only: env.simps big)
  have "minmax demo_env (articles_fn demo_db) ?r = Inl OverflowError"
    using minmax_min_conversion_raises [OF g pi ft] by simp
  then have "paginate demo_env (minmax demo_env (articles_fn demo_db)) ?r = Inl OverflowError"
    by (intro paginate_passes_error) (simp_all add: unparseable_def query_def)
  then show ?thesis
    unfolding articles_def by (intro endpoint_raises) simp_all
qed

lemma filter_kw_articles:
  "filter_kw (QuerySet (ArticleQS xs)) f = Inr v \<Longrightarrow>
     \<exists>ys. v = QuerySet (ArticleQS ys) \<and> set ys \<subseteq> set xs"
  by auto

lemma minmax_articles_subset:
  assumes "fn request = Inr (QuerySet (ArticleQS xs))" "minmax E fn request = Inr v"
  shows "\<exists>ys. v = QuerySet (ArticleQS ys) \<and> set ys \<subseteq> set xs"
proof (cases "minmax_filters E request")
  case (Inl e)
  with assms(2) show ?thesis by (cases e) (simp_all add: minmax_def)
next
  case (Inr f)
  with assms have "filter_kw (QuerySet (ArticleQS xs)) f = Inr v" by (simp add: minmax_def)
  then show ?thesis by (rule filter_kw_articles)
qed

lemma paginate_articles_sliced:
  assumes "fn request = Inr (QuerySet (ArticleQS xs))" "paginate E fn request = Inr v"
  shows "\<exists>lo hi. v = Sliced (ArticleQS xs) lo hi"
proof -
  from assms obtain a b where "getslice (QuerySet (ArticleQS xs)) a b = Inr v"
    by (auto simp: paginate_def split: option.splits)
  then show ?thesis by (auto split: if_splits)
qed

lemma evaluate_articles_subset:
  assumes "evaluate E (Sliced (ArticleQS xs) lo hi) = Inr rows"
  shows "\<exists>ys. rows = map Article ys \<and> set ys \<subseteq> set xs"
proof -
  have sub: "set (take n (drop m xs)) \<subseteq> set xs" for n m
    using set_take_subset set_drop_subset by fastforce
  from assms have "rows = map Article (take 0 (drop 0 xs)) \<or>
      rows = map Article (take (hi - lo) (drop lo xs))"
    by (auto simp: fetch_def split: if_splits)
  then show ?thesis using sub by blast
qed

lemma paginate_Inr_inner:
  "paginate E fn request = Inr v \<Longrightarrow> \<exists>w. fn request = Inr w"
  by (auto simp: paginate_def split: option.splits sum.splits)

lemma bound_param_Inr:
  "bound_param E request key = Inr b \<longleftrightarrow>
     (GET request key = None \<and> b = None) \<or>
     (\<exists>s n d. GET request key = Some s \<and> py_int E s = Some n \<and> fromtimestamp E n = Inr d \<and>
        b = Some d)"
  by (auto simp: bound_param_def split: option.splits sum.splits)

lemma length_filter_split:
  "length (filter P xs) =
     length (filter (\<lambda>x. P x \<and> Q x) xs) + length (filter (\<lambda>x. P x \<and> \<not> Q x) xs)"
  by (induction xs) auto

lemma count_article_split:
  "count_article D c =
     int (length (filter (\<lambda>a. category_id (category a) = category_id c \<and> status a = PUBLISHED)
       (article_objects D))) +
     int (length (filter (\<lambda>a. category_id (category a) = category_id c \<and> status a \<noteq> PUBLISHED)
       (article_objects D)))"
  unfolding count_article_def
  using length_filter_split
    [of "\<lambda>a. category_id (category a) = category_id c" "article_objects D"
      "\<lambda>a. status a = PUBLISHED"]
  by simp

subsection \<open>The hash of an author\<close>

text \<open>
  C1. The claim: for every Author the Encoder encodes, the \<open>email_hash\<close> of the mapping
  is the hash of that Author's own email, not of the email of another object such as an
  article's author. The code does not do this. \<open>_encode_profile\<close> reads
  \<open>article.author.email\<close>, copied from \<open>_encode_article\<close>, where it should read the
  email of the profile's user; \<open>article\<close> is not a name of the function or of the
  module, so encoding a profile raises \<open>NameError\<close> and no mapping is produced
  (\<open>encode_profile_unbound\<close>), and were the name bound to an article, the hash would be
  that of the article's author (\<open>encode_profile_residual\<close>). The theorem runs the
  \<open>authors\<close> view on a store with one profile: the request fails with the
  \<open>NameError\<close>, which \<open>endpoint\<close> does not catch.
\<close>

theorem authors_raises_NameError:
  "authors demo_env demo_db (query []) = Inl (NameError ''article'')"
  by (simp add: authors_def endpoint_def paginate_def minmax_def minmax_filters_def bound_param_def
      page_param_def size_param_def query_def authors_fn_def demo_db_def dumps_cls_def fetch_def
      encode_profile_def demo_env_def views_globals_article)

subsection \<open>The page that \<open>paginate\<close> returns\<close>

text \<open>
  C2. The claim gives, for every page \<open>p \<ge> 1\<close> and size \<open>s\<close> in \<open>[0, 20]\<close>, the
  rows from index \<open>(p - 1) * s\<close> up to \<open>p * s\<close>, and an empty collection, not an
  error, when \<open>(p - 1) * s\<close> is at least the length \<open>N\<close> of the collection.
  \<open>paginate\<close> only sets the limits of the query; the rows are fetched when the Encoder
  evaluates the QuerySet, and the data store refuses an offset beyond its integers. With
  \<open>page=1000000000000000000\<close> and \<open>size=20\<close> the offset is
  \<open>19999999999999999980\<close>, above \<open>2^63 - 1\<close>: evaluating the page raises the
  store's error, which \<open>endpoint\<close> does not catch, although \<open>(p - 1) * s \<ge> N\<close>
  (\<open>paginate_far_page_counterexample\<close>). As amended: for a requested page
  \<open>p \<ge> 1\<close> and a requested size \<open>s\<close> in \<open>[0, 20]\<close> (each its default when the
  parameter is absent) such that \<open>s = 0\<close>, or the offset \<open>(p - 1) * s\<close> and the size
  \<open>s\<close> are within the integers of the data store, the page that \<open>paginate\<close>
  returns evaluates to the rows of the collection from index \<open>(p - 1) * s\<close> up to, not
  including, \<open>p * s\<close>, in the order of the collection, and to the empty collection,
  not an error, when \<open>(p - 1) * s \<ge> N\<close>.
\<close>

theorem paginate_slice:
  assumes page: "requested E request ''page'' 1 = Some p" "1 \<le> p"
    and sz: "requested E request ''size'' 20 = Some s" "0 \<le> s" "s \<le> 20"
    and fn: "fn request = Inr (QuerySet qs)"
    and range: "s = 0 \<or> ((p - 1) * s \<le> backend_max E \<and> s \<le> backend_max E)"
  shows "\<exists>v. paginate E fn request = Inr v \<and>
           evaluate E v = Inr (rows_between (list_rows qs) (nat ((p - 1) * s)) (nat (p * s))) \<and>
           (int (length (list_rows qs)) \<le> (p - 1) * s \<longrightarrow> evaluate E v = Inr [])"
proof -
  let ?lo = "nat ((p - 1) * s)" and ?hi = "nat (p * s)"
  have pp: "page_param E request = Some p"
    using page by (simp add: page_param_requested)
  have sp: "size_param E request = Some s"
    using sz by (simp add: size_param_requested)
  have lo: "0 \<le> (p - 1) * s" using page(2) sz(2) by simp
  have step: "p * s = (p - 1) * s + s" by (simp add: algebra_simps)
  have le: "(p - 1) * s \<le> p * s" using step sz(2) by simp
  have run: "paginate E fn request = Inr (Sliced qs ?lo ?hi)"
    using paginate_eval [where fn = fn, OF pp sp fn] getslice_QuerySet [OF lo le] by simp
  have width: "int (?hi - ?lo) = s" using lo le step by simp
  have rows: "evaluate E (Sliced qs ?lo ?hi) = Inr (rows_between (list_rows qs) ?lo ?hi)"
  proof (cases "s = 0")
    case True
    then have "?lo = ?hi" by simp
    then show ?thesis
      using evaluate_empty [of E qs ?hi] by (simp add: rows_between_def)
  next
    case False
    with width have ne: "?lo \<noteq> ?hi" by auto
    from False range lo have off: "int ?lo \<le> backend_max E" by simp
    from False range width have lim: "int (?hi - ?lo) \<le> backend_max E" by simp
    show ?thesis by (rule evaluate_in_range [OF ne off lim])
  qed
  have "int (length (list_rows qs)) \<le> (p - 1) * s \<Longrightarrow>
      evaluate E (Sliced qs ?lo ?hi) = Inr []"
    using rows lo by (simp add: rows_between_beyond)
  with run rows show ?thesis by blast
qed

theorem paginate_slice_witness:
  "paginate demo_env (minmax demo_env (articles_fn demo_db))
     (query [(''page'', ''2''), (''size'', ''2'')]) =
     Inr (Sliced (ArticleQS
       [post 1 99 PUBLISHED, post 2 100 PUBLISHED, post 4 200 PUBLISHED, post 5 201 PUBLISHED])
       2 4) \<and>
   evaluate demo_env (Sliced (ArticleQS
       [post 1 99 PUBLISHED, post 2 100 PUBLISHED, post 4 200 PUBLISHED, post 5 201 PUBLISHED])
       2 4) = Inr [Article (post 4 200 PUBLISHED), Article (post 5 201 PUBLISHED)]"
proof -
  let ?r = "query [(''page'', ''2''), (''size'', ''2'')]"
  let ?xs = "[post 1 99 PUBLISHED, post 2 100 PUBLISHED, post 4 200 PUBLISHED, post 5 201 PUBLISHED]"
  have a: "requested demo_env ?r ''page'' 1 = Some 2" "requested demo_env ?r ''size'' 20 = Some 2"
    by (simp_all add: requested_def query_def demo_env_def decimal_int_2)
  have c: "(1::int) \<le> 2" "(0::int) \<le> 2" "(2::int) \<le> 20" by simp_all
  have d: "(2::int) = 0 \<or> ((2 - 1) * 2 \<le> backend_max demo_env \<and> 2 \<le> backend_max demo_env)"
    by (simp add: demo_env_def)
  from paginate_slice [where fn = "minmax demo_env (articles_fn demo_db)" and request = ?r,
      OF a(1) c(1) a(2) c(2) c(3) demo_published d]
  obtain v where v: "paginate demo_env (minmax demo_env (articles_fn demo_db)) ?r = Inr v"
    and rows: "evaluate demo_env v = Inr (rows_between (list_rows (ArticleQS ?xs)) (nat ((2 - 1) * 2)) (nat (2 * 2)))"
    by blast
  have run: "paginate demo_env (minmax demo_env (articles_fn demo_db)) ?r = Inr (Sliced (ArticleQS ?xs) 2 4)"
    using demo_published
    by (simp add: paginate_def page_param_def size_param_def query_def demo_env_def decimal_int_2)
  with v have "v = Sliced (ArticleQS ?xs) 2 4" by simp
  with rows have "evaluate demo_env (Sliced (ArticleQS ?xs) 2 4) =
      Inr [Article (post 4 200 PUBLISHED), Article (post 5 201 PUBLISHED)]"
    by (simp add: rows_between_def upt_rec)
  with run show ?thesis by simp
qed

theorem paginate_far_page_counterexample:
  "requested demo_env far_page ''page'' 1 = Some 1000000000000000000 \<and>
   requested demo_env far_page ''size'' 20 = Some 20 \<and>
   minmax demo_env (articles_fn demo_db) far_page =
     Inr (QuerySet (ArticleQS
       [post 1 99 PUBLISHED, post 2 100 PUBLISHED, post 4 200 PUBLISHED, post 5 201 PUBLISHED])) \<and>
   paginate demo_env (minmax demo_env (articles_fn demo_db)) far_page =
     Inr (Sliced (ArticleQS
       [post 1 99 PUBLISHED, post 2 100 PUBLISHED, post 4 200 PUBLISHED, post 5 201 PUBLISHED])
       19999999999999999980 20000000000000000000) \<and>
   evaluate demo_env (Sliced (ArticleQS
       [post 1 99 PUBLISHED, post 2 100 PUBLISHED, post 4 200 PUBLISHED, post 5 201 PUBLISHED])
       19999999999999999980 20000000000000000000) = Inl IntegrityError \<and>
   articles demo_env demo_db far_page = Inl IntegrityError"
proof -
  let ?xs = "[post 1 99 PUBLISHED, post 2 100 PUBLISHED, post 4 200 PUBLISHED, post 5 201 PUBLISHED]"
  let ?v = "Sliced (ArticleQS ?xs) 19999999999999999980 20000000000000000000"
  have parse: "decimal_int ''1000000000000000000'' = Some 1000000000000000000"
    by (simp add: decimal_int_def strip_def is_space_def digit_value_def)
  have req: "requested demo_env far_page ''page'' 1 = Some 1000000000000000000"
    "requested demo_env far_page ''size'' 20 = Some 20"
    by (simp_all add: requested_def far_page_def query_def demo_env_def parse decimal_int_samples)
  have inner: "minmax demo_env (articles_fn demo_db) far_page = Inr (QuerySet (ArticleQS ?xs))"
    by (simp add: minmax_unbounded articles_fn_def demo_db_def post_def far_page_def query_def)
  have run: "paginate demo_env (minmax demo_env (articles_fn demo_db)) far_page = Inr ?v"
    using req inner
    by (simp add: paginate_def page_param_requested size_param_requested)
  have ev: "evaluate demo_env ?v = Inl IntegrityError"
    by (simp add: fetch_def demo_env_def)
  have enc: "encoder_default demo_env ?v = Inl IntegrityError"
    by (simp add: fetch_def demo_env_def)
  have "articles demo_env demo_db far_page = Inl IntegrityError"
    unfolding articles_def using run enc by (simp add: endpoint_def dumps_cls_def)
  with req inner run ev show ?thesis by simp
qed

subsection \<open>Clamping of page and size\<close>

text \<open>
  C3. \<open>paginate\<close> with a requested size above 20 behaves as with size 20, with a
  negative requested size as with size 0, which gives an empty page whatever the page
  parameter, and with a requested page below 1 as with page 1. The two requests \<open>r1\<close>
  and \<open>r2\<close> carry the two sizes and the two pages, each requested by a parameter or
  left to its default; the wrapped function answers both alike, as \<open>minmax\<close> over a
  resource function does, since neither reads \<open>page\<close> or \<open>size\<close>
  (\<open>minmax_reads_min_max\<close>). The two results are the same QuerySet with the same
  limits, so they evaluate alike; the page of a negative size evaluates to no rows.
\<close>

theorem paginate_clamp:
  assumes same: "fn r1 = fn r2"
    and s1: "requested E r1 ''size'' 20 = Some s1"
    and s2: "requested E r2 ''size'' 20 = Some s2"
    and p1: "requested E r1 ''page'' 1 = Some p1"
    and p2: "requested E r2 ''page'' 1 = Some p2"
    and size_rel: "(20 < s1 \<and> s2 = 20) \<or> (s1 < 0 \<and> s2 = 0) \<or> s1 = s2"
    and page_rel: "(p1 < 1 \<and> p2 = 1) \<or> p1 = p2"
  shows "paginate E fn r1 = paginate E fn r2 \<and>
         (s1 < 0 \<longrightarrow> (\<forall>qs. fn r1 = Inr (QuerySet qs) \<longrightarrow>
            (\<exists>v. paginate E fn r1 = Inr v \<and> evaluate E v = Inr [])))"
proof -
  have pp1: "page_param E r1 = Some (max p1 1)" using p1 by (simp add: page_param_requested)
  have pp2: "page_param E r2 = Some (max p2 1)" using p2 by (simp add: page_param_requested)
  have sp1: "size_param E r1 = Some (min (max s1 0) 20)"
    using s1 by (simp add: size_param_requested)
  have sp2: "size_param E r2 = Some (min (max s2 0) 20)"
    using s2 by (simp add: size_param_requested)
  have pe: "max p1 1 = max p2 1" using page_rel by auto
  have se: "min (max s1 0) 20 = min (max s2 0) 20" using size_rel by auto
  have eq: "paginate E fn r1 = paginate E fn r2"
    by (simp add: paginate_def pp1 pp2 sp1 sp2 pe se same)
  have empty: "\<exists>v. paginate E fn r1 = Inr v \<and> evaluate E v = Inr []"
    if neg: "s1 < 0" and fn: "fn r1 = Inr (QuerySet qs)" for qs
  proof -
    have "size_param E r1 = Some 0" using sp1 neg by simp
    then have "paginate E fn r1 = Inr (Sliced qs 0 0)"
      by (simp add: paginate_def pp1 fn)
    then show ?thesis using evaluate_empty [of E qs 0] by simp
  qed
  show ?thesis using eq empty by blast
qed

theorem paginate_clamp_witness:
  "paginate demo_env (minmax demo_env (articles_fn demo_db)) (query [(''size'', ''1000'')]) =
   paginate demo_env (minmax demo_env (articles_fn demo_db)) (query [(''size'', ''20'')]) \<and>
   paginate demo_env (minmax demo_env (articles_fn demo_db)) (query [(''page'', ''-3'')]) =
   paginate demo_env (minmax demo_env (articles_fn demo_db)) (query [(''page'', ''1''), (''size'', ''20'')]) \<and>
   paginate demo_env (minmax demo_env (articles_fn demo_db)) (query [(''size'', ''-5''), (''page'', ''2'')]) =
   paginate demo_env (minmax demo_env (articles_fn demo_db)) (query [(''size'', ''0''), (''page'', ''2'')]) \<and>
   paginate demo_env (minmax demo_env (articles_fn demo_db)) (query [(''size'', ''-5''), (''page'', ''2'')]) =
     Inr (Sliced (ArticleQS
       [post 1 99 PUBLISHED, post 2 100 PUBLISHED, post 4 200 PUBLISHED, post 5 201 PUBLISHED])
       0 0) \<and>
   evaluate demo_env (Sliced (ArticleQS
       [post 1 99 PUBLISHED, post 2 100 PUBLISHED, post 4 200 PUBLISHED, post 5 201 PUBLISHED])
       0 0) = Inr []"
proof -
  let ?fn = "minmax demo_env (articles_fn demo_db)"
  let ?a1 = "query [(''size'', ''1000'')]"
  let ?a2 = "query [(''size'', ''20'')]"
  let ?c1 = "query [(''page'', ''-3'')]"
  let ?c2 = "query [(''page'', ''1''), (''size'', ''20'')]"
  let ?b1 = "query [(''size'', ''-5''), (''page'', ''2'')]"
  let ?b2 = "query [(''size'', ''0''), (''page'', ''2'')]"
  let ?xs = "[post 1 99 PUBLISHED, post 2 100 PUBLISHED, post 4 200 PUBLISHED, post 5 201 PUBLISHED]"
  have fn: "?fn r = Inr (QuerySet (ArticleQS ?xs))"
    if "GET r ''min'' = None" "GET r ''max'' = None" for r
    using that by (simp add: minmax_unbounded articles_fn_def demo_db_def post_def)
  have fa: "?fn ?a1 = ?fn ?a2" and fc: "?fn ?c1 = ?fn ?c2" and fb: "?fn ?b1 = ?fn ?b2"
    and fb1: "?fn ?b1 = Inr (QuerySet (ArticleQS ?xs))"
    by (simp_all add: fn query_def)
  have pi: "py_int demo_env = decimal_int" by (simp add: demo_env_def)
  have A: "paginate demo_env ?fn ?a1 = paginate demo_env ?fn ?a2"
    using paginate_clamp [where fn = ?fn and ?r1.0 = ?a1 and ?r2.0 = ?a2 and E = demo_env
        and ?s1.0 = 1000 and ?s2.0 = 20 and ?p1.0 = 1 and ?p2.0 = 1, OF fa]
    by (simp add: requested_def pi decimal_int_samples query_def)
  have C: "paginate demo_env ?fn ?c1 = paginate demo_env ?fn ?c2"
    using paginate_clamp [where fn = ?fn and ?r1.0 = ?c1 and ?r2.0 = ?c2 and E = demo_env
        and ?s1.0 = 20 and ?s2.0 = 20 and ?p1.0 = "- 3" and ?p2.0 = 1, OF fc]
    by (simp add: requested_def pi decimal_int_samples query_def)
  have T: "paginate demo_env ?fn ?b1 = paginate demo_env ?fn ?b2 \<and>
      ((- 5 :: int) < 0 \<longrightarrow> (\<forall>qs. ?fn ?b1 = Inr (QuerySet qs) \<longrightarrow>
         (\<exists>v. paginate demo_env ?fn ?b1 = Inr v \<and> evaluate demo_env v = Inr [])))"
    by (rule paginate_clamp [where fn = ?fn and ?r1.0 = ?b1 and ?r2.0 = ?b2 and E = demo_env
          and ?s1.0 = "- 5" and ?s2.0 = 0 and ?p1.0 = 2 and ?p2.0 = 2, OF fb])
      (simp_all add: requested_def pi decimal_int_samples decimal_int_2 query_def)
  have B: "paginate demo_env ?fn ?b1 = paginate demo_env ?fn ?b2"
    using T by blast
  have neg: "(- 5 :: int) < 0" by simp
  from T [THEN conjunct2, THEN mp, OF neg, THEN spec, THEN mp, OF fb1]
  obtain v where v: "paginate demo_env ?fn ?b1 = Inr v" "evaluate demo_env v = Inr []"
    by blast
  have D: "paginate demo_env ?fn ?b1 = Inr (Sliced (ArticleQS ?xs) 0 0)"
    using fb1
    by (simp add: paginate_def page_param_def size_param_def pi decimal_int_samples decimal_int_2
        query_def)
  from v D have "evaluate demo_env (Sliced (ArticleQS ?xs) 0 0) = Inr []" by simp
  with A B C D show ?thesis by simp
qed

subsection \<open>What \<open>endpoint\<close> catches\<close>

text \<open>
  C5. \<open>endpoint\<close> catches the exceptions of the class \<open>APIException\<close> and nothing
  else: an \<open>APIException\<close> raised inside becomes the payload \<open>{"error": <message>}\<close>,
  every other exception raised by the wrapped pipeline leaves \<open>endpoint\<close> as it is,
  and so does every exception raised by the Encoder (which never raises an
  \<open>APIException\<close>, \<open>encoder_default_not_API\<close>), in particular the \<open>TypeError\<close>
  for a value of a type the Encoder does not know.
\<close>

theorem endpoint_catches_APIException_only:
  "(fn request = Inl (APIException m) \<longrightarrow>
      endpoint E fn request = Inr (respond E request (dumps (JDict [(''error'', JStr m)])))) \<and>
   (fn request = Inl e \<and> \<not> is_APIException e \<longrightarrow> endpoint E fn request = Inl e) \<and>
   (fn request = Inr v \<and> encoder_default E v = Inl e \<longrightarrow> endpoint E fn request = Inl e) \<and>
   (fn request = Inr Object \<longrightarrow> endpoint E fn request = Inl TypeError)"
  using endpoint_APIException [of fn request m E] endpoint_raises [of fn request e E]
    endpoint_encoder_raises [of fn request v E e]
    endpoint_encoder_raises [of fn request Object E TypeError]
  by simp

theorem endpoint_catches_APIException_only_witness:
  "endpoint demo_env (\<lambda>r. Inl (APIException ''no'')) (query []) =
     Inr (HttpResponse (error_text ''no'') ''application/json'') \<and>
   endpoint demo_env (\<lambda>r. Inl ValueError) (query []) = Inl ValueError \<and>
   endpoint demo_env (\<lambda>r. Inr (Profile alice_profile)) (query []) = Inl (NameError ''article'') \<and>
   endpoint demo_env (\<lambda>r. Inr Object) (query []) = Inl TypeError"
proof -
  have enc: "encoder_default demo_env (Profile alice_profile) = Inl (NameError ''article'')"
    by (simp add: encode_profile_def demo_env_def views_globals_article)
  have body_text: "respond demo_env (query []) (dumps (JDict [(''error'', JStr ''no'')])) =
      HttpResponse (error_text ''no'') ''application/json''"
    by (simp add: respond_def query_def dumps_str_def escape_char_def error_text_def quoted_def)
  have A: "endpoint demo_env (\<lambda>r. Inl (APIException ''no'')) (query []) =
      Inr (respond demo_env (query []) (dumps (JDict [(''error'', JStr ''no'')])))"
    using endpoint_catches_APIException_only
        [of "\<lambda>r. Inl (APIException ''no'')" "query []" "''no''" demo_env ValueError Object]
    by simp
  have B: "endpoint demo_env (\<lambda>r. Inl ValueError) (query []) = Inl ValueError"
    using endpoint_catches_APIException_only
        [of "\<lambda>r. Inl ValueError" "query []" "''no''" demo_env ValueError Object]
    by simp
  have C: "endpoint demo_env (\<lambda>r. Inr (Profile alice_profile)) (query []) =
      Inl (NameError ''article'')"
    using endpoint_catches_APIException_only
        [of "\<lambda>r. Inr (Profile alice_profile)" "query []" "''no''" demo_env
          "NameError ''article''" "Profile alice_profile"] enc
    by simp
  have D: "endpoint demo_env (\<lambda>r. Inr Object) (query []) = Inl TypeError"
    using endpoint_catches_APIException_only
        [of "\<lambda>r. Inr Object" "query []" "''no''" demo_env TypeError Object]
    by simp
  show ?thesis unfolding A B C D body_text by simp
qed

subsection \<open>The choice of the representation\<close>

text \<open>
  C6. The representation of a payload is chosen in a fixed order: when \<open>debug\<close> is
  among the parameters the debug template is rendered with the re-indented payload, also
  when \<open>callback\<close> is there too; otherwise, when \<open>callback\<close> is there, the body is
  the callback, an opening parenthesis, the JSON text and a closing parenthesis, with
  nothing between them, and the type is \<open>application/javascript\<close>; otherwise the body is
  the JSON text and the type is \<open>application/json\<close>.
\<close>

theorem representation_selection:
  assumes "fn request = Inr v" and "dumps_cls E v = Inr json"
  shows "(GET request ''debug'' \<noteq> None \<longrightarrow>
            endpoint E fn request =
              Inr (TemplateResponse ''api/debug.html''
                (JDict
                  [(''title'', JStr ''2buntu API Debugger''),
                   (''parent'', JDict
                      [(''title'', JStr ''API''), (''url'', JStr (reverse_api_index E))]),
                   (''json'', JStr (reindent E json))]))) \<and>
         (GET request ''debug'' = None \<longrightarrow>
            (\<forall>cb. GET request ''callback'' = Some cb \<longrightarrow>
               endpoint E fn request =
                 Inr (HttpResponse (cb @ ''('' @ json @ '')'') ''application/javascript''))) \<and>
         (GET request ''debug'' = None \<and> GET request ''callback'' = None \<longrightarrow>
            endpoint E fn request = Inr (HttpResponse json ''application/json''))"
  unfolding endpoint_returns [where fn = fn, OF assms]
  by (simp add: respond_debug respond_callback respond_plain)

theorem representation_selection_witness:
  "articles demo_env demo_db (query [(''size'', ''0''), (''debug'', ''1''), (''callback'', ''foo'')]) =
     Inr (TemplateResponse ''api/debug.html''
       (JDict
         [(''title'', JStr ''2buntu API Debugger''),
          (''parent'', JDict [(''title'', JStr ''API''), (''url'', JStr ''/api/'')]),
          (''json'', JStr ''[]'')])) \<and>
   articles demo_env demo_db (query [(''size'', ''0''), (''callback'', ''foo'')]) =
     Inr (HttpResponse ''foo([])'' ''application/javascript'') \<and>
   articles demo_env demo_db (query [(''size'', ''0'')]) =
     Inr (HttpResponse ''[]'' ''application/json'')"
proof -
  let ?fn = "paginate demo_env (minmax demo_env (articles_fn demo_db))"
  let ?a = "query [(''size'', ''0''), (''debug'', ''1''), (''callback'', ''foo'')]"
  let ?b = "query [(''size'', ''0''), (''callback'', ''foo'')]"
  let ?c = "query [(''size'', ''0'')]"
  let ?v = "Sliced (ArticleQS
    [post 1 99 PUBLISHED, post 2 100 PUBLISHED, post 4 200 PUBLISHED, post 5 201 PUBLISHED]) 0 0"
  have fa: "?fn ?a = Inr ?v" and fb: "?fn ?b = Inr ?v" and fc: "?fn ?c = Inr ?v"
    by (rule demo_empty_page; simp add: query_def)+
  have A: "endpoint demo_env ?fn ?a =
      Inr (TemplateResponse ''api/debug.html''
        (JDict
          [(''title'', JStr ''2buntu API Debugger''),
           (''parent'', JDict [(''title'', JStr ''API''), (''url'', JStr ''/api/'')]),
           (''json'', JStr ''[]'')]))"
    using representation_selection [where fn = ?fn, OF fa dumps_cls_empty]
    by (simp add: query_def demo_env_def)
  have B: "endpoint demo_env ?fn ?b = Inr (HttpResponse ''foo([])'' ''application/javascript'')"
    using representation_selection [where fn = ?fn, OF fb dumps_cls_empty]
    by (simp add: query_def)
  have C: "endpoint demo_env ?fn ?c = Inr (HttpResponse ''[]'' ''application/json'')"
    using representation_selection [where fn = ?fn, OF fc dumps_cls_empty]
    by (simp add: query_def)
  show ?thesis unfolding articles_def A B C by simp
qed

subsection \<open>The representation of an error payload\<close>

text \<open>
  C10. When the wrapped pipeline raises an \<open>APIException\<close>, the payload
  \<open>{"error": <message>}\<close> that replaces the result is represented as any other payload:
  with \<open>debug\<close> among the parameters it is re-indented into the debug template; otherwise,
  with \<open>callback\<close>, the body is \<open><callback>({"error": <message>})\<close> of type
  \<open>application/javascript\<close>; otherwise it is returned as \<open>application/json\<close>.
\<close>

theorem error_payload_representation:
  assumes "fn request = Inl (APIException m)"
  shows "(GET request ''debug'' \<noteq> None \<longrightarrow>
            endpoint E fn request =
              Inr (TemplateResponse ''api/debug.html''
                (JDict
                  [(''title'', JStr ''2buntu API Debugger''),
                   (''parent'', JDict
                      [(''title'', JStr ''API''), (''url'', JStr (reverse_api_index E))]),
                   (''json'', JStr (reindent E (dumps (JDict [(''error'', JStr m)]))))]))) \<and>
         (GET request ''debug'' = None \<longrightarrow>
            (\<forall>cb. GET request ''callback'' = Some cb \<longrightarrow>
               endpoint E fn request =
                 Inr (HttpResponse (cb @ ''('' @ dumps (JDict [(''error'', JStr m)]) @ '')'')
                   ''application/javascript''))) \<and>
         (GET request ''debug'' = None \<and> GET request ''callback'' = None \<longrightarrow>
            endpoint E fn request =
              Inr (HttpResponse (dumps (JDict [(''error'', JStr m)])) ''application/json''))"
  unfolding endpoint_APIException [where fn = fn, OF assms]
  by (simp add: respond_debug respond_callback respond_plain)

theorem error_payload_representation_witness:
  "articles demo_env demo_db (query [(''page'', ''abc''), (''callback'', ''foo'')]) =
     Inr (HttpResponse
       (''foo('' @ error_text ''Invalid page and/or size parameter specified.'' @ '')'')
       ''application/javascript'') \<and>
   articles demo_env demo_db (query [(''page'', ''abc''), (''callback'', ''foo''), (''debug'', '''')]) =
     Inr (TemplateResponse ''api/debug.html''
       (JDict
         [(''title'', JStr ''2buntu API Debugger''),
          (''parent'', JDict [(''title'', JStr ''API''), (''url'', JStr ''/api/'')]),
          (''json'', JStr (error_text ''Invalid page and/or size parameter specified.''))]))"
proof -
  let ?fn = "paginate demo_env (minmax demo_env (articles_fn demo_db))"
  let ?a = "query [(''page'', ''abc''), (''callback'', ''foo'')]"
  let ?b = "query [(''page'', ''abc''), (''callback'', ''foo''), (''debug'', '''')]"
  let ?m = "''Invalid page and/or size parameter specified.''"
  have fa: "?fn ?a = Inl (APIException ?m)" and fb: "?fn ?b = Inl (APIException ?m)"
    by (rule paginate_invalid;
        simp add: unparseable_def query_def demo_env_def decimal_int_abc)+
  have A: "endpoint demo_env ?fn ?a =
      Inr (HttpResponse (''foo('' @ dumps (JDict [(''error'', JStr ?m)]) @ '')'')
        ''application/javascript'')"
    using error_payload_representation [where fn = ?fn, OF fa, of demo_env]
    by (simp add: query_def)
  have B: "endpoint demo_env ?fn ?b =
      Inr (TemplateResponse ''api/debug.html''
        (JDict
          [(''title'', JStr ''2buntu API Debugger''),
           (''parent'', JDict [(''title'', JStr ''API''), (''url'', JStr ''/api/'')]),
           (''json'', JStr (dumps (JDict [(''error'', JStr ?m)])))]))"
    using error_payload_representation [where fn = ?fn, OF fb, of demo_env]
    by (simp add: query_def demo_env_def)
  show ?thesis unfolding articles_def A B dumps_page_error by simp
qed

subsection \<open>Parameters that are not integers\<close>

text \<open>
  C4. The claim gives every request whose \<open>min\<close> or \<open>max\<close> is not an integer the
  payload of the min/max error. \<open>paginate\<close> wraps \<open>minmax\<close> and reads its own
  parameters first, so a request whose \<open>page\<close> is not an integer either gets the payload
  of the page/size error (\<open>min_error_payload_counterexample\<close>). As amended: a request
  whose \<open>page\<close> or \<open>size\<close> is present and not an integer gets exactly the payload
  \<open>{"error": "Invalid page and/or size parameter specified."}\<close>; a request whose
  \<open>page\<close> and \<open>size\<close> are absent or integers, and whose \<open>min\<close> is not an
  integer, or whose \<open>max\<close> is not an integer while \<open>min\<close> raises nothing but a
  \<open>ValueError\<close> (it is absent, or converts to a date, or is refused with a
  \<open>ValueError\<close>), gets exactly
  \<open>{"error": "Invalid min and/or max parameter specified."}\<close>. In both cases
  \<open>endpoint\<close> returns a response, and the response is the same for every resource
  function \<open>fn\<close>, also for one that would raise: it is not called. Only a \<open>min\<close>
  whose conversion raises something else than \<open>ValueError\<close> is left out: that
  exception leaves \<open>minmax\<close> before \<open>max\<close> is read
  (\<open>minmax_min_conversion_raises\<close>, \<open>min_overflow_escapes\<close>).
\<close>

theorem invalid_parameters_payload:
  "(unparseable E request ''page'' \<or> unparseable E request ''size'' \<longrightarrow>
      endpoint E (paginate E (minmax E fn)) request =
        Inr (respond E request (error_text ''Invalid page and/or size parameter specified.''))) \<and>
   (\<not> unparseable E request ''page'' \<and> \<not> unparseable E request ''size'' \<and>
    (unparseable E request ''min'' \<or>
     (unparseable E request ''max'' \<and>
      (\<forall>e. bound_param E request ''min'' = Inl e \<longrightarrow> e = ValueError))) \<longrightarrow>
      endpoint E (paginate E (minmax E fn)) request =
        Inr (respond E request (error_text ''Invalid min and/or max parameter specified.'')))"
proof (intro conjI impI)
  assume "unparseable E request ''page'' \<or> unparseable E request ''size''"
  then have "paginate E (minmax E fn) request =
      Inl (APIException ''Invalid page and/or size parameter specified.'')"
    by (rule paginate_invalid)
  then show "endpoint E (paginate E (minmax E fn)) request =
      Inr (respond E request (error_text ''Invalid page and/or size parameter specified.''))"
    using endpoint_APIException [where fn = "paginate E (minmax E fn)"]
    by (simp only: dumps_page_error)
next
  assume h: "\<not> unparseable E request ''page'' \<and> \<not> unparseable E request ''size'' \<and>
    (unparseable E request ''min'' \<or>
     (unparseable E request ''max'' \<and>
      (\<forall>e. bound_param E request ''min'' = Inl e \<longrightarrow> e = ValueError)))"
  then have "minmax E fn request =
      Inl (APIException ''Invalid min and/or max parameter specified.'')"
    by (intro minmax_invalid) blast
  with h have "paginate E (minmax E fn) request =
      Inl (APIException ''Invalid min and/or max parameter specified.'')"
    by (simp add: paginate_passes_error)
  then show "endpoint E (paginate E (minmax E fn)) request =
      Inr (respond E request (error_text ''Invalid min and/or max parameter specified.''))"
    using endpoint_APIException [where fn = "paginate E (minmax E fn)"]
    by (simp only: dumps_minmax_error)
qed

theorem invalid_parameters_payload_witness:
  "endpoint demo_env (paginate demo_env (minmax demo_env (\<lambda>r. Inl AssertionError)))
     (query [(''size'', ''x1'')]) =
     Inr (HttpResponse (error_text ''Invalid page and/or size parameter specified.'')
       ''application/json'') \<and>
   articles demo_env demo_db (query [(''page'', ''2''), (''min'', ''abc'')]) =
     Inr (HttpResponse (error_text ''Invalid min and/or max parameter specified.'')
       ''application/json'') \<and>
   endpoint demo_env (paginate demo_env (minmax demo_env (\<lambda>r. Inl AssertionError)))
     (query [(''min'', ''100''), (''max'', ''1e3'')]) =
     Inr (HttpResponse (error_text ''Invalid min and/or max parameter specified.'')
       ''application/json'') \<and>
   bound_param demo_env (query [(''min'', ''253402300800''), (''max'', ''abc'')]) ''min'' =
     Inl ValueError \<and>
   articles demo_env demo_db (query [(''min'', ''253402300800''), (''max'', ''abc'')]) =
     Inr (HttpResponse (error_text ''Invalid min and/or max parameter specified.'')
       ''application/json'')"
proof -
  let ?a = "query [(''size'', ''x1'')]"
  let ?b = "query [(''page'', ''2''), (''min'', ''abc'')]"
  let ?c = "query [(''min'', ''100''), (''max'', ''1e3'')]"
  let ?d = "query [(''min'', ''253402300800''), (''max'', ''abc'')]"
  have parse: "decimal_int ''x1'' = None" "decimal_int ''1e3'' = None"
    "decimal_int ''100'' = Some 100" "decimal_int ''253402300800'' = Some 253402300800"
    by (simp_all add: decimal_int_def strip_def is_space_def digit_value_def)
  have ha: "unparseable demo_env ?a ''page'' \<or> unparseable demo_env ?a ''size''"
    by (simp add: unparseable_def query_def demo_env_def parse)
  have hb: "\<not> unparseable demo_env ?b ''page'' \<and> \<not> unparseable demo_env ?b ''size'' \<and>
    (unparseable demo_env ?b ''min'' \<or>
     (unparseable demo_env ?b ''max'' \<and>
      (\<forall>e. bound_param demo_env ?b ''min'' = Inl e \<longrightarrow> e = ValueError)))"
    by (simp add: unparseable_def query_def demo_env_def decimal_int_2 decimal_int_abc)
  have hc: "\<not> unparseable demo_env ?c ''page'' \<and> \<not> unparseable demo_env ?c ''size'' \<and>
    (unparseable demo_env ?c ''min'' \<or>
     (unparseable demo_env ?c ''max'' \<and>
      (\<forall>e. bound_param demo_env ?c ''min'' = Inl e \<longrightarrow> e = ValueError)))"
    by (simp add: unparseable_def query_def demo_env_def parse bound_param_def
        utc_fromtimestamp_def)
  have bd: "bound_param demo_env ?d ''min'' = Inl ValueError"
    by (simp add: query_def demo_env_def parse bound_param_def utc_fromtimestamp_def)
  have hd: "\<not> unparseable demo_env ?d ''page'' \<and> \<not> unparseable demo_env ?d ''size'' \<and>
    (unparseable demo_env ?d ''min'' \<or>
     (unparseable demo_env ?d ''max'' \<and>
      (\<forall>e. bound_param demo_env ?d ''min'' = Inl e \<longrightarrow> e = ValueError)))"
    unfolding bd by (simp add: unparseable_def query_def demo_env_def parse decimal_int_abc)
  have A: "endpoint demo_env (paginate demo_env (minmax demo_env (\<lambda>r. Inl AssertionError))) ?a =
      Inr (respond demo_env ?a (error_text ''Invalid page and/or size parameter specified.''))"
    using invalid_parameters_payload [of demo_env ?a "\<lambda>r. Inl AssertionError"] ha by blast
  have B: "endpoint demo_env (paginate demo_env (minmax demo_env (articles_fn demo_db))) ?b =
      Inr (respond demo_env ?b (error_text ''Invalid min and/or max parameter specified.''))"
    using invalid_parameters_payload [of demo_env ?b "articles_fn demo_db"] hb by blast
  have C: "endpoint demo_env (paginate demo_env (minmax demo_env (\<lambda>r. Inl AssertionError))) ?c =
      Inr (respond demo_env ?c (error_text ''Invalid min and/or max parameter specified.''))"
    using invalid_parameters_payload [of demo_env ?c "\<lambda>r. Inl AssertionError"] hc by blast
  have D: "endpoint demo_env (paginate demo_env (minmax demo_env (articles_fn demo_db))) ?d =
      Inr (respond demo_env ?d (error_text ''Invalid min and/or max parameter specified.''))"
    using invalid_parameters_payload [of demo_env ?d "articles_fn demo_db"] hd by blast
  have R: "respond demo_env ?a j = HttpResponse j ''application/json''"
    "respond demo_env ?b j = HttpResponse j ''application/json''"
    "respond demo_env ?c j = HttpResponse j ''application/json''"
    "respond demo_env ?d j = HttpResponse j ''application/json''" for j
    by (simp_all add: respond_def query_def)
  show ?thesis unfolding articles_def A B C D R bd by simp
qed

theorem min_error_payload_counterexample:
  "unparseable demo_env (query [(''page'', ''abc''), (''min'', ''abc'')]) ''min'' \<and>
   articles demo_env demo_db (query [(''page'', ''abc''), (''min'', ''abc'')]) =
     Inr (HttpResponse (error_text ''Invalid page and/or size parameter specified.'')
       ''application/json'') \<and>
   articles demo_env demo_db (query [(''page'', ''abc''), (''min'', ''abc'')]) \<noteq>
     Inr (HttpResponse (error_text ''Invalid min and/or max parameter specified.'')
       ''application/json'')"
proof -
  let ?r = "query [(''page'', ''abc''), (''min'', ''abc'')]"
  have u: "unparseable demo_env ?r ''min''" "unparseable demo_env ?r ''page''"
    by (simp_all add: unparseable_def query_def demo_env_def decimal_int_abc)
  have "paginate demo_env (minmax demo_env (articles_fn demo_db)) ?r =
      Inl (APIException ''Invalid page and/or size parameter specified.'')"
    using u(2) by (simp add: paginate_invalid)
  then have run: "articles demo_env demo_db ?r =
      Inr (HttpResponse (error_text ''Invalid page and/or size parameter specified.'')
        ''application/json'')"
    unfolding articles_def
    using endpoint_APIException [where fn = "paginate demo_env (minmax demo_env (articles_fn demo_db))"
        and request = ?r and E = demo_env]
    by (simp add: dumps_str_def escape_char_def error_text_def quoted_def respond_def query_def)
  have "error_text ''Invalid page and/or size parameter specified.'' \<noteq>
      error_text ''Invalid min and/or max parameter specified.''"
    by (simp add: error_text_def quoted_def)
  with u(1) run show ?thesis by simp
qed

subsection \<open>Only published articles are listed\<close>

text \<open>
  C7. For each of the four views that list articles (all articles, the article of an id,
  the articles of an author, the articles of a category) and for every request, whatever
  its pagination and date parameters, the collection that the pipeline returns is a slice
  of a QuerySet whose articles are all published articles of the store, and every row
  that its evaluation returns is one of them: an article whose status is not published
  never appears.
\<close>

theorem listings_published_only:
  assumes fn: "fn = articles_fn D \<or> fn = article_by_id_fn D i \<or>
               fn = articles_by_author_fn D i \<or> fn = articles_by_category_fn D i"
    and run: "paginate E (minmax E fn) request = Inr v"
  shows "\<exists>zs lo hi. v = Sliced (ArticleQS zs) lo hi \<and>
           (\<forall>a \<in> set zs. status a = PUBLISHED \<and> a \<in> set (article_objects D)) \<and>
           (\<forall>rows. evaluate E v = Inr rows \<longrightarrow>
              (\<exists>ys. rows = map Article ys \<and>
                 (\<forall>a \<in> set ys. status a = PUBLISHED \<and> a \<in> set (article_objects D))))"
proof -
  from fn obtain xs where xs: "fn request = Inr (QuerySet (ArticleQS xs))"
    and pub: "\<forall>a \<in> set xs. status a = PUBLISHED \<and> a \<in> set (article_objects D)"
    by (auto simp: articles_fn_def article_by_id_fn_def articles_by_author_fn_def
        articles_by_category_fn_def)
  from run obtain w where w: "minmax E fn request = Inr w"
    by (auto dest: paginate_Inr_inner)
  from minmax_articles_subset [where fn = fn, OF xs w]
  obtain zs where zs: "w = QuerySet (ArticleQS zs)" "set zs \<subseteq> set xs" by blast
  from paginate_articles_sliced [where fn = "minmax E fn", OF w [unfolded zs(1)] run]
  obtain lo hi where v: "v = Sliced (ArticleQS zs) lo hi" by blast
  have zpub: "\<forall>a \<in> set zs. status a = PUBLISHED \<and> a \<in> set (article_objects D)"
    using zs(2) pub by blast
  have "\<exists>ys. rows = map Article ys \<and>
      (\<forall>a \<in> set ys. status a = PUBLISHED \<and> a \<in> set (article_objects D))"
    if "evaluate E v = Inr rows" for rows
  proof -
    from that v obtain ys where "rows = map Article ys" "set ys \<subseteq> set zs"
      using evaluate_articles_subset by blast
    with zpub show ?thesis by blast
  qed
  with v zpub show ?thesis by blast
qed

theorem listings_published_only_witness:
  "paginate demo_env (minmax demo_env (articles_fn demo_db)) (query []) =
     Inr (Sliced (ArticleQS
       [post 1 99 PUBLISHED, post 2 100 PUBLISHED, post 4 200 PUBLISHED, post 5 201 PUBLISHED])
       0 20) \<and>
   evaluate demo_env (Sliced (ArticleQS
       [post 1 99 PUBLISHED, post 2 100 PUBLISHED, post 4 200 PUBLISHED, post 5 201 PUBLISHED])
       0 20) =
     Inr [Article (post 1 99 PUBLISHED), Article (post 2 100 PUBLISHED),
          Article (post 4 200 PUBLISHED), Article (post 5 201 PUBLISHED)] \<and>
   post 3 150 DRAFT \<in> set (article_objects demo_db)"
proof -
  let ?fn = "articles_fn demo_db"
  let ?xs = "[post 1 99 PUBLISHED, post 2 100 PUBLISHED, post 4 200 PUBLISHED, post 5 201 PUBLISHED]"
  have "minmax demo_env ?fn (query []) = Inr (QuerySet (ArticleQS ?xs))"
    by (simp add: minmax_unbounded articles_fn_def demo_db_def post_def query_def)
  then have run: "paginate demo_env (minmax demo_env ?fn) (query []) =
      Inr (Sliced (ArticleQS ?xs) 0 20)"
    by (simp add: paginate_def page_param_def size_param_def query_def)
  have ev: "evaluate demo_env (Sliced (ArticleQS ?xs) 0 20) = Inr (map Article ?xs)"
    by (simp add: fetch_def demo_env_def)
  from listings_published_only [where fn = ?fn and D = demo_db and i = 0 and E = demo_env,
      OF _ run]
  have "\<forall>rows. evaluate demo_env (Sliced (ArticleQS ?xs) 0 20) = Inr rows \<longrightarrow>
      (\<exists>ys. rows = map Article ys \<and>
        (\<forall>a \<in> set ys. status a = PUBLISHED \<and> a \<in> set (article_objects demo_db)))"
    by simp
  with ev have "\<exists>ys. map Article ?xs = map Article ys \<and>
      (\<forall>a \<in> set ys. status a = PUBLISHED \<and> a \<in> set (article_objects demo_db))"
    by blast
  moreover have "post 3 150 DRAFT \<in> set (article_objects demo_db)"
    by (simp add: demo_db_def)
  ultimately show ?thesis using run ev by simp
qed

subsection \<open>The number of articles of a category\<close>

text \<open>
  C8. The claim: the count that the \<open>categories\<close> view attaches to a category is the
  number of published articles of the category, and an article that is not published is
  never counted. The code does not do this. \<open>Count('article')\<close> counts every article
  that refers to the category, whatever its status (\<open>count_article_split\<close>), while
  each of the four views that list articles filters on \<open>status=Article.PUBLISHED\<close>. On
  a store whose only article is a draft in the category \<open>news\<close>, the view answers
  \<open>[{"id": 1, "name": "news", "articles": 1}]\<close>, where the store has no published
  article.
\<close>

theorem categories_counts_drafts:
  "categories demo_env drafts_db (query []) =
     Inr (HttpResponse
       (''[{'' @ quoted ''id'' @ '': 1, '' @ quoted ''name'' @ '': '' @ quoted ''news'' @ '', '' @
        quoted ''articles'' @ '': 1}]'')
       ''application/json'') \<and>
   filter (\<lambda>a. status a = PUBLISHED) (article_objects drafts_db) = []"
  by (simp add: categories_def endpoint_def paginate_def minmax_def minmax_filters_def
      bound_param_def page_param_def size_param_def query_def categories_fn_def count_article_def
      drafts_db_def dumps_cls_def encode_category_def respond_def news_def post_def
      dumps_str_def escape_char_def dumps_int_def quoted_def fetch_def demo_env_def)

subsection \<open>The bounds of the date filter\<close>

text \<open>
  C9. With \<open>min\<close> and \<open>max\<close> given as integer timestamps that the host converts to
  dates \<open>lo\<close> and \<open>hi\<close>, \<open>minmax\<close> keeps exactly the articles whose date lies
  between the two, both included, in their order: an article dated \<open>lo\<close> or \<open>hi\<close>
  is kept, an article dated one second before \<open>lo\<close> or one second after \<open>hi\<close> is
  not, and an absent bound (\<open>None\<close>) constrains nothing on its side. A bound is
  absent or the converted parameter (\<open>bound_param_Inr\<close>); the date of an article is
  compared with the date that \<open>datetime.fromtimestamp\<close> gives for the parameter.
\<close>

theorem minmax_inclusive:
  assumes lo: "bound_param E request ''min'' = Inr lo"
    and hi: "bound_param E request ''max'' = Inr hi"
    and fn: "fn request = Inr (QuerySet (ArticleQS xs))"
  shows "\<exists>ys. minmax E fn request = Inr (QuerySet (ArticleQS ys)) \<and>
           ys = filter (\<lambda>a. (\<forall>m. lo = Some m \<longrightarrow> m \<le> date a) \<and>
                            (\<forall>m. hi = Some m \<longrightarrow> date a \<le> m)) xs \<and>
           (\<forall>a \<in> set xs. lo = Some (date a) \<and> (\<forall>m. hi = Some m \<longrightarrow> date a \<le> m) \<longrightarrow> a \<in> set ys) \<and>
           (\<forall>a \<in> set xs. hi = Some (date a) \<and> (\<forall>m. lo = Some m \<longrightarrow> m \<le> date a) \<longrightarrow> a \<in> set ys) \<and>
           (\<forall>a. lo = Some (date a + 1) \<longrightarrow> a \<notin> set ys) \<and>
           (\<forall>a. hi = Some (date a - 1) \<longrightarrow> a \<notin> set ys) \<and>
           (lo = None \<and> hi = None \<longrightarrow> ys = xs)"
proof -
  let ?f = "\<lparr>date__gte = lo, date__lte = hi\<rparr>"
  have "minmax_filters E request = Inr ?f"
    using lo hi by (simp add: minmax_filters_def)
  then have run: "minmax E fn request = Inr (QuerySet (ArticleQS (filter (date_ok ?f) xs)))"
    using fn by (simp add: minmax_def)
  have ok: "date_ok ?f = (\<lambda>a. (\<forall>m. lo = Some m \<longrightarrow> m \<le> date a) \<and>
                            (\<forall>m. hi = Some m \<longrightarrow> date a \<le> m))"
    by (auto simp: date_ok_def fun_eq_iff split: option.splits)
  show ?thesis unfolding run ok by auto
qed

theorem minmax_inclusive_witness:
  "minmax demo_env (articles_fn demo_db) (query [(''min'', ''100''), (''max'', ''200'')]) =
     Inr (QuerySet (ArticleQS [post 2 100 PUBLISHED, post 4 200 PUBLISHED])) \<and>
   articles_fn demo_db (query [(''min'', ''100''), (''max'', ''200'')]) =
     Inr (QuerySet (ArticleQS
       [post 1 99 PUBLISHED, post 2 100 PUBLISHED, post 4 200 PUBLISHED, post 5 201 PUBLISHED]))"
proof -
  let ?r = "query [(''min'', ''100''), (''max'', ''200'')]"
  let ?xs = "[post 1 99 PUBLISHED, post 2 100 PUBLISHED, post 4 200 PUBLISHED, post 5 201 PUBLISHED]"
  have parse: "decimal_int ''100'' = Some 100" "decimal_int ''200'' = Some 200"
    by (simp_all add: decimal_int_def strip_def is_space_def digit_value_def)
  have lo: "bound_param demo_env ?r ''min'' = Inr (Some 100)"
    and hi: "bound_param demo_env ?r ''max'' = Inr (Some 200)"
    by (simp_all add: bound_param_def query_def demo_env_def parse utc_fromtimestamp_def)
  have fn: "articles_fn demo_db ?r = Inr (QuerySet (ArticleQS ?xs))"
    by (simp add: articles_fn_def demo_db_def post_def)
  from minmax_inclusive [where fn = "articles_fn demo_db", OF lo hi fn]
  have "minmax demo_env (articles_fn demo_db) ?r =
      Inr (QuerySet (ArticleQS (filter (\<lambda>a. 100 \<le> date a \<and> date a \<le> 200) ?xs)))"
    by simp
  then show ?thesis using fn by (simp add: post_def)
qed

end
